theory Spec2Isabelle
  imports Complex_Main "HOL-Library.AList" "HOL-Library.Char_ord" "HOL-Library.List_Lexorder"
begin

section \<open>JavaScript numbers\<close>

text \<open>
  A JavaScript number is modelled as a real number or one of the three special values.
  The operations of this section give the exact result on finite values, and the sign of
  zero is not part of the model. The sums of the analysis are taken with these exact
  operations; the normaliser of the feature matrix rounds the result of every operation
  to a double (\<open>rnd\<close> below), and a parsed literal overflows to \<open>Infinity\<close>.
\<close>

datatype jsnum = NaN | PInf | NInf | Fin real

fun isNaN :: "jsnum \<Rightarrow> bool" where
  "isNaN NaN = True"
| "isNaN _ = False"

fun isFiniteNum :: "jsnum \<Rightarrow> bool" where
  "isFiniteNum (Fin _) = True"
| "isFiniteNum _ = False"

text \<open>\<open>x || 0\<close> on a number: \<open>NaN\<close> and zero are falsy.\<close>

fun orZero :: "jsnum \<Rightarrow> jsnum" where
  "orZero NaN = Fin 0"
| "orZero x = x"

fun jneg :: "jsnum \<Rightarrow> jsnum" where
  "jneg NaN = NaN"
| "jneg PInf = NInf"
| "jneg NInf = PInf"
| "jneg (Fin a) = Fin (- a)"

fun jadd :: "jsnum \<Rightarrow> jsnum \<Rightarrow> jsnum" where
  "jadd (Fin a) (Fin b) = Fin (a + b)"
| "jadd NaN _ = NaN"
| "jadd _ NaN = NaN"
| "jadd PInf NInf = NaN"
| "jadd NInf PInf = NaN"
| "jadd PInf _ = PInf"
| "jadd _ PInf = PInf"
| "jadd NInf _ = NInf"
| "jadd _ NInf = NInf"

definition jsub :: "jsnum \<Rightarrow> jsnum \<Rightarrow> jsnum" where
  "jsub a b = jadd a (jneg b)"

text \<open>The sign of a product or quotient with an infinite operand.\<close>

definition signed_inf :: "bool \<Rightarrow> jsnum" where
  "signed_inf pos = (if pos then PInf else NInf)"

fun jmul :: "jsnum \<Rightarrow> jsnum \<Rightarrow> jsnum" where
  "jmul (Fin a) (Fin b) = Fin (a * b)"
| "jmul NaN _ = NaN"
| "jmul _ NaN = NaN"
| "jmul PInf PInf = PInf"
| "jmul PInf NInf = NInf"
| "jmul NInf PInf = NInf"
| "jmul NInf NInf = PInf"
| "jmul PInf (Fin b) = (if b = 0 then NaN else signed_inf (0 < b))"
| "jmul NInf (Fin b) = (if b = 0 then NaN else signed_inf (b < 0))"
| "jmul (Fin a) PInf = (if a = 0 then NaN else signed_inf (0 < a))"
| "jmul (Fin a) NInf = (if a = 0 then NaN else signed_inf (a < 0))"

fun jdiv :: "jsnum \<Rightarrow> jsnum \<Rightarrow> jsnum" where
  "jdiv (Fin a) (Fin b) =
     (if b = 0 then (if a = 0 then NaN else signed_inf (0 < a)) else Fin (a / b))"
| "jdiv NaN _ = NaN"
| "jdiv _ NaN = NaN"
| "jdiv (Fin a) PInf = Fin 0"
| "jdiv (Fin a) NInf = Fin 0"
| "jdiv PInf (Fin b) = signed_inf (0 \<le> b)"
| "jdiv NInf (Fin b) = signed_inf (b < 0)"
| "jdiv PInf PInf = NaN"
| "jdiv PInf NInf = NaN"
| "jdiv NInf PInf = NaN"
| "jdiv NInf NInf = NaN"

text \<open>\<open>Math.pow(x, 2)\<close> and \<open>Math.sqrt(x)\<close>.\<close>

fun jsquare :: "jsnum \<Rightarrow> jsnum" where
  "jsquare NaN = NaN"
| "jsquare (Fin a) = Fin (a * a)"
| "jsquare _ = PInf"

fun jsqrt :: "jsnum \<Rightarrow> jsnum" where
  "jsqrt (Fin a) = (if a < 0 then NaN else Fin (sqrt a))"
| "jsqrt PInf = PInf"
| "jsqrt _ = NaN"

text \<open>The comparison \<open>a > b\<close>; every comparison with \<open>NaN\<close> is false.\<close>

fun jgt :: "jsnum \<Rightarrow> jsnum \<Rightarrow> bool" where
  "jgt (Fin a) (Fin b) = (b < a)"
| "jgt NaN _ = False"
| "jgt _ NaN = False"
| "jgt PInf PInf = False"
| "jgt PInf _ = True"
| "jgt _ PInf = False"
| "jgt NInf _ = False"
| "jgt _ NInf = True"

text \<open>\<open>Math.round\<close>: the nearest integer, a tie going up.\<close>

fun jround :: "jsnum \<Rightarrow> jsnum" where
  "jround (Fin a) = Fin (of_int \<lfloor>a + 1 / 2\<rfloor>)"
| "jround x = x"

section \<open>JavaScript strings\<close>

text \<open>
  Strings are lists of code units below 256. \<open>toLowerCase\<close> maps the upper-case letters of
  that range; \<open>includes\<close> is the substring test.
\<close>

definition lowerChar :: "char \<Rightarrow> char" where
  "lowerChar c =
     (let n = (of_char c :: nat)
      in if (65 \<le> n \<and> n \<le> 90) \<or> (192 \<le> n \<and> n \<le> 222 \<and> n \<noteq> 215)
         then char_of (n + 32) else c)"

definition toLowerCase :: "string \<Rightarrow> string" where
  "toLowerCase s = map lowerChar s"

definition startsWith :: "string \<Rightarrow> string \<Rightarrow> bool" where
  "startsWith s p = (take (length p) s = p)"

fun str_includes :: "string \<Rightarrow> string \<Rightarrow> bool" where
  "str_includes [] p = (p = [])"
| "str_includes (c # cs) p = (startsWith (c # cs) p \<or> str_includes cs p)"

text \<open>The decimal form of an integer, as a template literal prints it.\<close>

definition digitChar :: "nat \<Rightarrow> char" where
  "digitChar d = char_of (48 + d)"

fun showNat :: "nat \<Rightarrow> string" where
  "showNat n = (if n < 10 then [digitChar n] else showNat (n div 10) @ [digitChar (n mod 10)])"

definition showInt :: "int \<Rightarrow> string" where
  "showInt i = (if i < 0 then CHR ''-'' # showNat (nat (- i)) else showNat (nat i))"

section \<open>Parsing numbers\<close>

text \<open>
  \<open>parseFloat\<close> skips leading white space and reads the longest prefix that is a decimal
  literal (\<open>StrDecimalLiteral\<close> of the language definition); \<open>Number\<close>, which the global
  \<open>isFinite\<close> applies to its argument, reads the whole trimmed string and also accepts the
  empty string (as 0) and the radix prefixes.
\<close>

definition isWhiteSpace :: "char \<Rightarrow> bool" where
  "isWhiteSpace c = ((of_char c :: nat) \<in> {9, 10, 11, 12, 13, 32, 160})"

definition isDigit :: "char \<Rightarrow> bool" where
  "isDigit c = (48 \<le> (of_char c :: nat) \<and> (of_char c :: nat) \<le> 57)"

definition digitsValue :: "string \<Rightarrow> nat" where
  "digitsValue ds = foldl (\<lambda>a c. 10 * a + ((of_char c :: nat) - 48)) 0 ds"

text \<open>A literal whose value rounds beyond the largest double is \<open>Infinity\<close>.\<close>

definition overflowBound :: real where
  "overflowBound = 2 ^ 1024 - 2 ^ 970"

definition finiteOrInf :: "real \<Rightarrow> jsnum" where
  "finiteOrInf v =
     (if overflowBound \<le> v then PInf else if v \<le> - overflowBound then NInf else Fin v)"

definition scale10 :: "int \<Rightarrow> int \<Rightarrow> real" where
  "scale10 m e = (if 0 \<le> e then of_int m * 10 ^ nat e else of_int m / 10 ^ nat (- e))"

text \<open>The exponent part, when one follows: its value and the rest of the string.\<close>

definition exponentPart :: "string \<Rightarrow> int \<times> string" where
  "exponentPart s =
     (case s of
        [] \<Rightarrow> (0, s)
      | c # r \<Rightarrow>
          if c = CHR ''e'' \<or> c = CHR ''E'' then
            (let neg = (r \<noteq> [] \<and> hd r = CHR ''-'');
                 r' = (if r \<noteq> [] \<and> (hd r = CHR ''-'' \<or> hd r = CHR ''+'') then tl r else r);
                 ds = takeWhile isDigit r'
             in if ds = [] then (0, s)
                else ((if neg then - int (digitsValue ds) else int (digitsValue ds)),
                      dropWhile isDigit r'))
          else (0, s))"

text \<open>An unsigned decimal literal at the front of the string, and what follows it.\<close>

definition unsignedDecimal :: "string \<Rightarrow> (jsnum \<times> string) option" where
  "unsignedDecimal s =
     (if startsWith s ''Infinity'' then Some (PInf, drop 8 s)
      else
        let ip = takeWhile isDigit s;
            r1 = dropWhile isDigit s;
            dot = (r1 \<noteq> [] \<and> hd r1 = CHR ''.'');
            fp = (if dot then takeWhile isDigit (tl r1) else []);
            r2 = (if dot then dropWhile isDigit (tl r1) else r1)
        in if ip = [] \<and> fp = [] then None
           else
             let (e, r3) = exponentPart r2
             in Some (finiteOrInf (scale10 (int (digitsValue (ip @ fp))) (e - int (length fp))), r3))"

definition strDecimalLiteral :: "string \<Rightarrow> (jsnum \<times> string) option" where
  "strDecimalLiteral s =
     (case s of
        [] \<Rightarrow> None
      | c # r \<Rightarrow>
          if c = CHR ''-'' then map_option (\<lambda>(v, t). (jneg v, t)) (unsignedDecimal r)
          else if c = CHR ''+'' then unsignedDecimal r
          else unsignedDecimal s)"

definition trimStart :: "string \<Rightarrow> string" where
  "trimStart s = dropWhile isWhiteSpace s"

definition trim :: "string \<Rightarrow> string" where
  "trim s = rev (dropWhile isWhiteSpace (rev (dropWhile isWhiteSpace s)))"

text \<open>\<open>parseFloat(v)\<close>; a missing property (\<open>undefined\<close>) reads as \<open>NaN\<close>.\<close>

definition parseFloat :: "string option \<Rightarrow> jsnum" where
  "parseFloat v =
     (case v of
        None \<Rightarrow> NaN
      | Some s \<Rightarrow> (case strDecimalLiteral (trimStart s) of None \<Rightarrow> NaN | Some (x, _) \<Rightarrow> x))"

text \<open>Literals with a radix prefix: \<open>0x\<close>, \<open>0o\<close>, \<open>0b\<close> and at least one digit of that radix.\<close>

definition radixDigit :: "nat \<Rightarrow> char \<Rightarrow> nat option" where
  "radixDigit b c =
     (let n = (of_char c :: nat);
          d = (if 48 \<le> n \<and> n \<le> 57 then n - 48
               else if 97 \<le> n \<and> n \<le> 102 then n - 87
               else if 65 \<le> n \<and> n \<le> 70 then n - 55
               else 16)
      in if d < b then Some d else None)"

definition radixValue :: "nat \<Rightarrow> string \<Rightarrow> nat option" where
  "radixValue b ds =
     (if ds = [] \<or> (\<exists>c \<in> set ds. radixDigit b c = None) then None
      else Some (foldl (\<lambda>a c. b * a + the (radixDigit b c)) 0 ds))"

definition nonDecimalLiteral :: "string \<Rightarrow> nat option" where
  "nonDecimalLiteral s =
     (case s of
        c0 # c1 # ds \<Rightarrow>
          if c0 \<noteq> CHR ''0'' then None
          else if c1 = CHR ''x'' \<or> c1 = CHR ''X'' then radixValue 16 ds
          else if c1 = CHR ''o'' \<or> c1 = CHR ''O'' then radixValue 8 ds
          else if c1 = CHR ''b'' \<or> c1 = CHR ''B'' then radixValue 2 ds
          else None
      | _ \<Rightarrow> None)"

text \<open>\<open>Number(v)\<close> on a string or a missing property.\<close>

definition toNumber :: "string option \<Rightarrow> jsnum" where
  "toNumber v =
     (case v of
        None \<Rightarrow> NaN
      | Some s \<Rightarrow>
          let t = trim s
          in if t = [] then Fin 0
             else (case nonDecimalLiteral t of
                     Some n \<Rightarrow> finiteOrInf (of_nat n)
                   | None \<Rightarrow>
                       (case strDecimalLiteral t of
                          Some (x, []) \<Rightarrow> x
                        | _ \<Rightarrow> NaN)))"

text \<open>The global \<open>isFinite(v)\<close>.\<close>

definition isFinite :: "string option \<Rightarrow> bool" where
  "isFinite v = isFiniteNum (toNumber v)"

section \<open>Tables, records and objects\<close>

text \<open>
  A record of the input table (\<open>Customer\<close>, an object indexed by strings) is the list of its
  own properties in the order of \<open>Object.keys\<close>, each with its raw string value; a numeric
  cell stands as its decimal string. Reading a property the record does not have gives
  \<open>undefined\<close>, here \<open>None\<close>. The objects the analysis builds hold strings, numbers and the
  nested \<open>features\<close> object.
\<close>

type_synonym row = "(string \<times> string) list"

type_synonym table = "row list"

datatype jsval = VUndefined | VStr string | VNum jsnum | VObj "(string \<times> jsnum) list"

type_synonym obj = "(string \<times> jsval) list"

text \<open>The object spread \<open>{...customer}\<close> and the properties written after it, in order.\<close>

definition spread :: "row \<Rightarrow> obj" where
  "spread r = map (\<lambda>(k, v). (k, VStr v)) r"

definition setProps :: "obj \<Rightarrow> (string \<times> jsval) list \<Rightarrow> obj" where
  "setProps ob kvs = foldl (\<lambda>acc (k, v). AList.update k v acc) ob kvs"

text \<open>
  \<open>customer.segment\<close> read back as a property key. Every object the analysis builds holds a
  string there; the other cases are never reached.
\<close>

definition segmentOf :: "obj \<Rightarrow> string" where
  "segmentOf c = (case map_of c ''segment'' of Some (VStr s) \<Rightarrow> s | _ \<Rightarrow> ''undefined'')"

definition clusterOf :: "obj \<Rightarrow> jsval" where
  "clusterOf c = (case map_of c ''cluster'' of Some v \<Rightarrow> v | None \<Rightarrow> VUndefined)"

text \<open>\<open>customer.features[field]\<close>; a missing entry is \<open>undefined\<close>, which \<open>|| 0\<close> turns into 0.\<close>

definition featureOrZero :: "obj \<Rightarrow> string \<Rightarrow> jsnum" where
  "featureOrZero c f =
     (case map_of c ''features'' of
        Some (VObj fs) \<Rightarrow> (case map_of fs f of Some v \<Rightarrow> orZero v | None \<Rightarrow> Fin 0)
      | _ \<Rightarrow> Fin 0)"

section \<open>Field classification and basic metrics\<close>

definition isEmailField :: "string \<Rightarrow> bool" where
  "isEmailField f = str_includes (toLowerCase f) ''email''"

definition isAmountField :: "string \<Rightarrow> bool" where
  "isAmountField f =
     (str_includes (toLowerCase f) ''amount'' \<or> str_includes (toLowerCase f) ''revenue'' \<or>
      str_includes (toLowerCase f) ''value'' \<or> str_includes (toLowerCase f) ''total'')"

definition isDateField :: "string \<Rightarrow> bool" where
  "isDateField f =
     (str_includes (toLowerCase f) ''date'' \<or> str_includes (toLowerCase f) ''time'' \<or>
      str_includes (toLowerCase f) ''created'')"

text \<open>\<open>fields.find(...) || fields[0]\<close>: \<open>undefined\<close> when there is no field at all.\<close>

definition emailFieldOf :: "string list \<Rightarrow> string option" where
  "emailFieldOf fs =
     (case find isEmailField fs of
        Some f \<Rightarrow> Some f
      | None \<Rightarrow> (case fs of [] \<Rightarrow> None | f # _ \<Rightarrow> Some f))"

text \<open>The field roles of a table, read from its first record.\<close>

definition fieldsOf :: "table \<Rightarrow> string list" where
  "fieldsOf data = map fst (hd data)"

definition amountFieldsOf :: "table \<Rightarrow> string list" where
  "amountFieldsOf data = filter isAmountField (fieldsOf data)"

definition dateFieldsOf :: "table \<Rightarrow> string list" where
  "dateFieldsOf data = filter isDateField (fieldsOf data)"

text \<open>\<open>parseFloat(customer[amountFields[0]]) || 0\<close>.\<close>

definition amountIn :: "string \<Rightarrow> row \<Rightarrow> jsnum" where
  "amountIn a customer = orZero (parseFloat (map_of customer a))"

definition totalRevenueOf :: "string list \<Rightarrow> table \<Rightarrow> jsnum" where
  "totalRevenueOf amountFields data =
     (case amountFields of
        [] \<Rightarrow> Fin 0
      | a # _ \<Rightarrow> foldl (\<lambda>sum customer. jadd sum (amountIn a customer)) (Fin 0) data)"

text \<open>\<open>totalRevenue / totalCustomers || 0\<close>.\<close>

definition avgOrderValueOf :: "jsnum \<Rightarrow> nat \<Rightarrow> jsnum" where
  "avgOrderValueOf totalRevenue n = orZero (jdiv totalRevenue (Fin (real n)))"

section \<open>Segment distribution\<close>

text \<open>
  \<open>acc[name] = (acc[name] || 0) + 1\<close> on an object that starts empty: the keys stay in the
  order of their first occurrence, which is the order of \<open>Object.entries\<close>.
\<close>

fun bump :: "string \<Rightarrow> (string \<times> nat) list \<Rightarrow> (string \<times> nat) list" where
  "bump k [] = [(k, 1)]"
| "bump k ((k', c) # ps) = (if k' = k then (k', c + 1) # ps else (k', c) # bump k ps)"

definition segmentCountsOf :: "obj list \<Rightarrow> (string \<times> nat) list" where
  "segmentCountsOf customerSegments = foldl (\<lambda>acc customer. bump (segmentOf customer) acc) [] customerSegments"

record segment_entry =
  seg_name :: string
  seg_value :: nat
  percentage :: int

text \<open>\<open>Math.round((value / totalCustomers) * 100)\<close>; the table is not empty here.\<close>

definition percentageOf :: "nat \<Rightarrow> nat \<Rightarrow> int" where
  "percentageOf v totalCustomers = \<lfloor>(real v / real totalCustomers) * 100 + 1 / 2\<rfloor>"

definition segmentDataOf :: "(string \<times> nat) list \<Rightarrow> nat \<Rightarrow> segment_entry list" where
  "segmentDataOf segmentCounts totalCustomers =
     map (\<lambda>(name, v). \<lparr>seg_name = name, seg_value = v, percentage = percentageOf v totalCustomers\<rparr>)
       segmentCounts"

text \<open>
  \<open>segmentData.sort((a, b) => b.value - a.value)\<close> sorts the array in place, stably and by
  falling count: the \<open>segmentData\<close> of the result is the sorted array, and \<open>topSegment\<close> the
  name of its first entry.
\<close>

definition sortByValueDesc :: "segment_entry list \<Rightarrow> segment_entry list" where
  "sortByValueDesc es = sort_key (\<lambda>e. - int (seg_value e)) es"

definition topSegmentOf :: "segment_entry list \<Rightarrow> string" where
  "topSegmentOf es =
     (case es of
        [] \<Rightarrow> ''Champions''
      | e # _ \<Rightarrow> (if seg_name e = [] then ''Champions'' else seg_name e))"

record month_entry =
  month :: string
  customers :: int
  revenue :: jsnum

definition shortMonths :: "string list" where
  "shortMonths = [''Jan'', ''Feb'', ''Mar'', ''Apr'', ''May'', ''Jun'',
                  ''Jul'', ''Aug'', ''Sep'', ''Oct'', ''Nov'', ''Dec'']"

section \<open>Rule-based RFM analysis\<close>

text \<open>
  The dashboard that scores recency, frequency and monetary value. \<open>Math.random()\<close> is the
  sequence \<open>u\<close> of its draws, each in \<open>[0, 1)\<close>, read through a counter that every draw
  advances.
\<close>

definition rScoreOf :: "int \<Rightarrow> nat" where
  "rScoreOf recency =
     (if recency < 30 then 5 else if recency < 90 then 4 else if recency < 180 then 3
      else if recency < 365 then 2 else 1)"

definition fScoreOf :: "int \<Rightarrow> nat" where
  "fScoreOf frequency =
     (if frequency > 15 then 5 else if frequency > 10 then 4 else if frequency > 5 then 3
      else if frequency > 2 then 2 else 1)"

definition mScoreOf :: "jsnum \<Rightarrow> nat" where
  "mScoreOf amount =
     (if jgt amount (Fin 1000) then 5 else if jgt amount (Fin 500) then 4
      else if jgt amount (Fin 200) then 3 else if jgt amount (Fin 50) then 2 else 1)"

definition rfmSegmentOf :: "nat \<Rightarrow> nat \<Rightarrow> nat \<Rightarrow> string" where
  "rfmSegmentOf r f m =
     (let avgScore = (real r + real f + real m) / 3
      in if avgScore \<ge> 4.5 then ''Champions''
         else if avgScore \<ge> 4 then ''Loyal Customers''
         else if avgScore \<ge> 3.5 then ''Potential Loyalists''
         else if avgScore \<ge> 3 then ''At Risk''
         else if avgScore \<ge> 2 then ''Need Attention''
         else ''Lost Customers'')"

text \<open>
  The amount of a record and the counter after it: the first amount field when there is
  one, else a draw scaled to \<open>[0, 1000)\<close>.
\<close>

definition rfmAmount :: "(nat \<Rightarrow> real) \<Rightarrow> string list \<Rightarrow> nat \<Rightarrow> row \<Rightarrow> jsnum \<times> nat" where
  "rfmAmount u amountFields c customer =
     (case amountFields of
        [] \<Rightarrow> (Fin (u c * 1000), c + 1)
      | a # _ \<Rightarrow> (amountIn a customer, c))"

definition rfmCustomer :: "(nat \<Rightarrow> real) \<Rightarrow> string list \<Rightarrow> nat \<Rightarrow> nat \<Rightarrow> row \<Rightarrow> obj \<times> nat" where
  "rfmCustomer u amountFields c index customer =
     (let (amount, c1) = rfmAmount u amountFields c customer;
          recency = \<lfloor>u c1 * 365\<rfloor>;
          frequency = \<lfloor>u (c1 + 1) * 20\<rfloor> + 1;
          rScore = rScoreOf recency;
          fScore = fScoreOf frequency;
          mScore = mScoreOf amount;
          segment = rfmSegmentOf rScore fScore mScore
      in (setProps (spread customer)
            [(''id'', VNum (Fin (real (index + 1)))),
             (''recency'', VNum (Fin (of_int recency))),
             (''frequency'', VNum (Fin (of_int frequency))),
             (''monetary'', VNum amount),
             (''rScore'', VNum (Fin (real rScore))),
             (''fScore'', VNum (Fin (real fScore))),
             (''mScore'', VNum (Fin (real mScore))),
             (''segment'', VStr segment)],
          c1 + 2))"

fun rfmCustomers :: "(nat \<Rightarrow> real) \<Rightarrow> string list \<Rightarrow> nat \<Rightarrow> nat \<Rightarrow> table \<Rightarrow> obj list \<times> nat" where
  "rfmCustomers u amountFields c index [] = ([], c)"
| "rfmCustomers u amountFields c index (customer # rest) =
     (let (ob, c1) = rfmCustomer u amountFields c index customer;
          (obs, c2) = rfmCustomers u amountFields c1 (index + 1) rest
      in (ob # obs, c2))"

text \<open>The simulated trend: twelve months, two draws each.\<close>

definition rfmMonthlyData :: "(nat \<Rightarrow> real) \<Rightarrow> nat \<Rightarrow> month_entry list" where
  "rfmMonthlyData u c =
     map (\<lambda>i. \<lparr>month = shortMonths ! i,
                customers = \<lfloor>u (c + 2 * i) * 100\<rfloor> + 50,
                revenue = Fin (of_int (\<lfloor>u (c + 2 * i + 1) * 10000\<rfloor> + 5000))\<rparr>) [0..<12]"

record rfm_insights =
  rfm_totalCustomers :: nat
  rfm_totalRevenue :: jsnum
  rfm_avgOrderValue :: jsnum
  rfm_customerSegments :: "obj list"
  rfm_segmentData :: "segment_entry list"
  rfm_monthlyData :: "month_entry list"
  rfm_fields :: "string list"
  rfm_topSegment :: string

definition rfmSnapshot :: "(nat \<Rightarrow> real) \<Rightarrow> table \<Rightarrow> rfm_insights" where
  "rfmSnapshot u data =
     (let n = length data;
          revenueTotal = totalRevenueOf (amountFieldsOf data) data;
          (segs, c) = rfmCustomers u (amountFieldsOf data) 0 0 data;
          ranked = sortByValueDesc (segmentDataOf (segmentCountsOf segs) n)
      in \<lparr>rfm_totalCustomers = n,
          rfm_totalRevenue = revenueTotal,
          rfm_avgOrderValue = avgOrderValueOf revenueTotal n,
          rfm_customerSegments = segs,
          rfm_segmentData = ranked,
          rfm_monthlyData = rfmMonthlyData u c,
          rfm_fields = fieldsOf data,
          rfm_topSegment = topSegmentOf ranked\<rparr>)"

text \<open>The analysis: \<open>None\<close> (the source's \<open>null\<close>) for a missing or empty table.\<close>

definition rfmInsights :: "(nat \<Rightarrow> real) \<Rightarrow> table option \<Rightarrow> rfm_insights option" where
  "rfmInsights u input =
     (case input of
        None \<Rightarrow> None
      | Some data \<Rightarrow> if data = [] then None else Some (rfmSnapshot u data))"

section \<open>Normalisation of the feature matrix\<close>

text \<open>
  Rounding to a double: the multiple of the unit in the last place of \<open>x\<close> that is nearest
  to \<open>x\<close>, the even one of two that are equally near. A double has 53 significant bits and
  its unit in the last place is never below \<open>2^-1074\<close>; a result whose magnitude reaches
  \<open>overflowBound\<close> is infinite.
\<close>

definition roundHalfEven :: "real \<Rightarrow> int" where
  "roundHalfEven q =
     (let f = \<lfloor>q\<rfloor>
      in if q - of_int f < 1 / 2 then f
         else if 1 / 2 < q - of_int f then f + 1
         else if even f then f else f + 1)"

definition ulpExponent :: "real \<Rightarrow> int" where
  "ulpExponent x = max (\<lfloor>log 2 \<bar>x\<bar>\<rfloor> - 52) (- 1074)"

definition round53 :: "real \<Rightarrow> real" where
  "round53 x =
     (if x = 0 then 0
      else of_int (roundHalfEven (x / 2 powr of_int (ulpExponent x))) * 2 powr of_int (ulpExponent x))"

definition toDouble :: "real \<Rightarrow> jsnum" where
  "toDouble x = (if overflowBound \<le> \<bar>x\<bar> then signed_inf (0 < x) else Fin (round53 x))"

text \<open>The value a double operation returns, given its exact result.\<close>

definition rnd :: "jsnum \<Rightarrow> jsnum" where
  "rnd x = (case x of Fin a \<Rightarrow> toDouble a | _ \<Rightarrow> x)"

text \<open>
  \<open>normalizeData\<close>, on a matrix of doubles. Reading past the end of an array gives
  \<open>undefined\<close>, which arithmetic turns into \<open>NaN\<close>. The two passes over the rows keep one
  accumulator for each column, so each column is summed on its own, over the rows in order,
  every sum, difference, quotient, square and root rounded as it is taken.
  \<open>Math.pow(d, 2)\<close> is taken to be the rounded square of \<open>d\<close>.
\<close>

definition cell :: "jsnum list \<Rightarrow> nat \<Rightarrow> jsnum" where
  "cell xs j = (if j < length xs then xs ! j else NaN)"

definition columnSum :: "jsnum list list \<Rightarrow> nat \<Rightarrow> jsnum" where
  "columnSum data j = foldl (\<lambda>acc r. jadd acc (cell r j)) (Fin 0) data"

text \<open>\<open>means[j]\<close> after the first two loops.\<close>

definition columnMean :: "jsnum list list \<Rightarrow> nat \<Rightarrow> jsnum" where
  "columnMean data j =
     rnd (jdiv (foldl (\<lambda>acc r. rnd (jadd acc (cell r j))) (Fin 0) data)
            (Fin (real (length data))))"

text \<open>\<open>Math.pow(data[i][j] - means[j], 2)\<close>.\<close>

definition squaredDeviation :: "jsnum \<Rightarrow> jsnum \<Rightarrow> jsnum" where
  "squaredDeviation x m = rnd (jsquare (rnd (jsub x m)))"

text \<open>\<open>stds[j]\<close> after the next two loops: 1 in the place of a computed deviation of 0.\<close>

definition columnStd :: "jsnum list list \<Rightarrow> jsnum list \<Rightarrow> nat \<Rightarrow> jsnum" where
  "columnStd data means j =
     (let s = rnd (jsqrt (rnd (jdiv
                (foldl (\<lambda>acc r. rnd (jadd acc (squaredDeviation (cell r j) (cell means j))))
                   (Fin 0) data)
                (Fin (real (length data))))))
      in if s = Fin 0 then Fin 1 else s)"

definition normalizeData :: "jsnum list list \<Rightarrow> jsnum list list" where
  "normalizeData data =
     (if data = [] \<or> hd data = [] then data
      else
        let numFeatures = length (hd data);
            means = map (columnMean data) [0..<numFeatures];
            stds = map (columnStd data means) [0..<numFeatures]
        in map (\<lambda>r. map (\<lambda>j. rnd (jdiv (rnd (jsub (r ! j) (cell means j))) (cell stds j)))
                      [0..<length r]) data)"

section \<open>What the runtime and the clustering library provide\<close>

text \<open>
  The analysis calls \<open>kmeans\<close> of the library \<open>ml-kmeans\<close>, the \<open>Date\<close> constructor, the
  locale's month format and \<open>Math.random\<close>. None of them is code of the repository, so they
  are parameters: \<open>kmeans\<close> returns the cluster index of every row or raises; \<open>newDate\<close>
  gives the local year and month index of a date string, or \<open>None\<close> for an invalid date;
  \<open>mathRandom\<close> is the sequence of draws; \<open>monthLabel\<close> prints a month key.
\<close>

datatype kmeans_result = Raised | Clusters "nat list"

record runtime =
  kmeans :: "jsnum list list \<Rightarrow> nat \<Rightarrow> kmeans_result"
  newDate :: "string \<Rightarrow> (int \<times> nat) option"
  mathRandom :: "nat \<Rightarrow> real"
  monthLabel :: "string \<Rightarrow> string"

datatype error = TypeError | LibraryError

section \<open>K-means analysis\<close>

record labels =
  lbl_customers :: string
  lbl_revenue :: string
  lbl_avgOrder :: string

definition has :: "string \<Rightarrow> string \<Rightarrow> bool" where
  "has f w = str_includes (toLowerCase f) w"

definition labelsOf :: "string \<Rightarrow> string list \<Rightarrow> labels" where
  "labelsOf emailField amountFields =
     \<lparr>lbl_customers =
        (if has emailField ''customer'' then ''Total Customers''
         else if has emailField ''user'' then ''Total Users''
         else if has emailField ''contact'' then ''Total Contacts'' else ''Total Records''),
      lbl_revenue =
        (case amountFields of
           [] \<Rightarrow> ''Total Value''
         | a # _ \<Rightarrow>
             if has a ''revenue'' then ''Total Revenue''
             else if has a ''sales'' then ''Total Sales''
             else if has a ''value'' then ''Total Value''
             else if has a ''amount'' then ''Total Amount'' else ''Total Value''),
      lbl_avgOrder =
        (case amountFields of
           [] \<Rightarrow> ''Avg Value''
         | a # _ \<Rightarrow>
             if has a ''revenue'' then ''Avg Revenue''
             else if has a ''sales'' then ''Avg Sale Value''
             else if has a ''order'' then ''Avg Order Value'' else ''Avg Value'')\<rparr>"

text \<open>
  A field is numeric when, among the first 100 records, some value passes
  \<open>!isNaN(parseFloat(val)) && isFinite(val)\<close>.
\<close>

definition isNumericValue :: "string option \<Rightarrow> bool" where
  "isNumericValue v = (\<not> isNaN (parseFloat v) \<and> isFinite v)"

definition numericFieldsOf :: "string list \<Rightarrow> table \<Rightarrow> string list" where
  "numericFieldsOf fs data =
     filter (\<lambda>field. list_ex isNumericValue (map (\<lambda>r. map_of r field) (take 100 data))) fs"

definition featureValue :: "row \<Rightarrow> string \<Rightarrow> jsnum" where
  "featureValue customer field =
     (let v = parseFloat (map_of customer field) in if isNaN v then Fin 0 else v)"

definition clusteringDataOf :: "string list \<Rightarrow> table \<Rightarrow> jsnum list list" where
  "clusteringDataOf numericFields data =
     map (\<lambda>customer. map (featureValue customer) numericFields) data"

text \<open>\<open>clusterResults.clusters[index]\<close>; \<open>None\<close> is \<open>undefined\<close>.\<close>

definition clusterAt :: "nat list \<Rightarrow> nat \<Rightarrow> nat option" where
  "clusterAt clusters i = (if i < length clusters then Some (clusters ! i) else None)"

record cluster_stat =
  stat_clusterId :: nat
  stat_avgValues :: "jsnum list"
  stat_size :: nat

definition clusterPointsOf :: "jsnum list list \<Rightarrow> nat list \<Rightarrow> nat \<Rightarrow> jsnum list list" where
  "clusterPointsOf clusteringData clusters cid =
     map fst (filter (\<lambda>(point, idx). clusterAt clusters idx = Some cid)
                (zip clusteringData [0..<length clusteringData]))"

definition clusterStatOf ::
  "jsnum list list \<Rightarrow> nat list \<Rightarrow> string list \<Rightarrow> nat \<Rightarrow> cluster_stat option" where
  "clusterStatOf clusteringData clusters numericFields cid =
     (let clusterPoints = clusterPointsOf clusteringData clusters cid
      in if clusterPoints = [] then None
         else Some \<lparr>stat_clusterId = cid,
                    stat_avgValues =
                      map (\<lambda>fieldIdx. jdiv (columnSum clusterPoints fieldIdx)
                                          (Fin (real (length clusterPoints))))
                        [0..<length numericFields],
                    stat_size = length clusterPoints\<rparr>)"

fun findIndex :: "('a \<Rightarrow> bool) \<Rightarrow> 'a list \<Rightarrow> nat option" where
  "findIndex p [] = None"
| "findIndex p (x # xs) = (if p x then Some 0 else map_option Suc (findIndex p xs))"

definition segmentLabel :: "nat \<Rightarrow> string" where
  "segmentLabel i = ''Segment '' @ showNat (i + 1)"

text \<open>The name of one entry of \<open>clusterStats\<close>.\<close>

definition valueName :: "jsnum \<Rightarrow> jsnum \<Rightarrow> real \<Rightarrow> string" where
  "valueName avgValue overallAvg relativeSize =
     (if jgt avgValue (jmul overallAvg (Fin 1.5)) then
        (if relativeSize > 0.15 then ''High Value'' else ''Premium'')
      else if jgt avgValue (jmul overallAvg (Fin 0.8)) then
        (if relativeSize > 0.25 then ''Core Customers'' else ''Regular'')
      else if jgt avgValue (jmul overallAvg (Fin 0.3)) then ''Potential Growth''
      else (if relativeSize > 0.2 then ''Entry Level'' else ''At Risk''))"

definition sizeName :: "real \<Rightarrow> string" where
  "sizeName relativeSize =
     (if relativeSize > 0.3 then ''Majority Segment''
      else if relativeSize > 0.2 then ''Significant Group''
      else if relativeSize > 0.1 then ''Niche Segment''
      else ''Emerging Group'')"

definition nameOfStat ::
  "nat option \<Rightarrow> jsnum list list \<Rightarrow> nat \<Rightarrow> cluster_stat option \<Rightarrow> string" where
  "nameOfStat primaryValueFieldIdx clusteringData n stat =
     (case stat of
        None \<Rightarrow> ''Other''
      | Some st \<Rightarrow>
          let relativeSize = real (stat_size st) / real n
          in (case primaryValueFieldIdx of
                Some p \<Rightarrow>
                  valueName (cell (stat_avgValues st) p)
                    (jdiv (columnSum clusteringData p) (Fin (real (length clusteringData))))
                    relativeSize
              | None \<Rightarrow> sizeName relativeSize))"

text \<open>
  \<open>generateSegmentNames\<close>. The statistics of the empty clusters are dropped
  (\<open>filter(Boolean)\<close>) before the names are made, so the list of names is indexed by the
  position among the clusters that have points.
\<close>

definition generateSegmentNames ::
  "nat list option \<Rightarrow> string list \<Rightarrow> string list \<Rightarrow> jsnum list list \<Rightarrow> nat \<Rightarrow> nat \<Rightarrow> string list" where
  "generateSegmentNames clusterResults numericFields amountFields clusteringData k n =
     (case clusterResults of
        None \<Rightarrow> map segmentLabel [0..<k]
      | Some clusters \<Rightarrow>
          if numericFields = [] then map segmentLabel [0..<k]
          else
            let clusterStats =
                  filter (\<lambda>s. s \<noteq> None)
                    (map (clusterStatOf clusteringData clusters numericFields) [0..<k]);
                primaryValueFieldIdx = findIndex (\<lambda>f. f \<in> set amountFields) numericFields
            in map (nameOfStat primaryValueFieldIdx clusteringData n) clusterStats)"

text \<open>\<open>amountFields.length > 0 ? parseFloat(customer[amountFields[0]]) || 0 : 0\<close>.\<close>

definition primaryAmount :: "string list \<Rightarrow> row \<Rightarrow> jsnum" where
  "primaryAmount amountFields customer =
     (case amountFields of [] \<Rightarrow> Fin 0 | a # _ \<Rightarrow> amountIn a customer)"

text \<open>
  The cluster of a record: the library's answer, or 0 when the library was not called.
  \<open>segmentNames[clusterId] || `Segment ${clusterId + 1}`\<close>: no name is the empty string, so
  the second operand is taken exactly when the index is out of range.
\<close>

definition clusterIdOf :: "nat list option \<Rightarrow> nat \<Rightarrow> nat option" where
  "clusterIdOf clusterResults index =
     (case clusterResults of None \<Rightarrow> Some 0 | Some clusters \<Rightarrow> clusterAt clusters index)"

definition segmentNameOf :: "string list \<Rightarrow> nat option \<Rightarrow> string" where
  "segmentNameOf segmentNames clusterId =
     (case clusterId of
        None \<Rightarrow> ''Segment NaN''
      | Some c \<Rightarrow> (if c < length segmentNames \<and> segmentNames ! c \<noteq> [] then segmentNames ! c
                   else segmentLabel c))"

definition featuresOf :: "string list \<Rightarrow> row \<Rightarrow> (string \<times> jsnum) list" where
  "featuresOf numericFields customer =
     foldl (\<lambda>acc field. AList.update field (orZero (parseFloat (map_of customer field))) acc)
       [] numericFields"

definition clusterValue :: "nat option \<Rightarrow> jsval" where
  "clusterValue clusterId =
     (case clusterId of None \<Rightarrow> VUndefined | Some c \<Rightarrow> VNum (Fin (real c)))"

definition customerSegment ::
  "nat list option \<Rightarrow> string list \<Rightarrow> string list \<Rightarrow> string list \<Rightarrow> nat \<Rightarrow> row \<Rightarrow> obj" where
  "customerSegment clusterResults segmentNames amountFields numericFields index customer =
     (let clusterId = clusterIdOf clusterResults index;
          segment = segmentNameOf segmentNames clusterId;
          amount = primaryAmount amountFields customer
      in setProps (spread customer)
           [(''id'', VNum (Fin (real (index + 1)))),
            (''cluster'', clusterValue clusterId),
            (''segment'', VStr segment),
            (''monetary'', VNum amount),
            (''features'', VObj (featuresOf numericFields customer))])"

definition customerSegmentsOf ::
  "nat list option \<Rightarrow> string list \<Rightarrow> string list \<Rightarrow> string list \<Rightarrow> table \<Rightarrow> obj list" where
  "customerSegmentsOf clusterResults segmentNames amountFields numericFields data =
     map (\<lambda>(customer, index).
            customerSegment clusterResults segmentNames amountFields numericFields index customer)
       (zip data [0..<length data])"

subsection \<open>Monthly trend\<close>

definition padStart2 :: "string \<Rightarrow> string" where
  "padStart2 s = replicate (2 - length s) CHR ''0'' @ s"

definition monthKeyOf :: "int \<Rightarrow> nat \<Rightarrow> string" where
  "monthKeyOf y m = showInt y @ ''-'' @ padStart2 (showNat (m + 1))"

text \<open>\<open>new Date(dateStr)\<close>: a missing value is an invalid date.\<close>

definition dateOf :: "runtime \<Rightarrow> string option \<Rightarrow> (int \<times> nat) option" where
  "dateOf rt v = (case v of None \<Rightarrow> None | Some s \<Rightarrow> newDate rt s)"

fun addToMonth :: "string \<Rightarrow> jsnum \<Rightarrow> (string \<times> nat \<times> jsnum) list \<Rightarrow> (string \<times> nat \<times> jsnum) list" where
  "addToMonth k a [] = [(k, 1, jadd (Fin 0) a)]"
| "addToMonth k a ((k', cnt, amt) # ps) =
     (if k' = k then (k', cnt + 1, jadd amt a) # ps else (k', cnt, amt) # addToMonth k a ps)"

definition monthGroupsOf ::
  "runtime \<Rightarrow> string \<Rightarrow> string list \<Rightarrow> table \<Rightarrow> (string \<times> nat \<times> jsnum) list" where
  "monthGroupsOf rt dateField amountFields data =
     foldl (\<lambda>acc r.
              case dateOf rt (map_of r dateField) of
                None \<Rightarrow> acc
              | Some (y, m) \<Rightarrow> addToMonth (monthKeyOf y m) (primaryAmount amountFields r) acc)
       [] data"

text \<open>
  The month groups sorted by key (\<open>localeCompare\<close>, which on keys of digits and hyphens is
  the order of the code units), the last twelve kept.
\<close>

definition realTrend :: "runtime \<Rightarrow> (string \<times> nat \<times> jsnum) list \<Rightarrow> month_entry list" where
  "realTrend rt monthGroups =
     map (\<lambda>(monthKey, cnt, amt).
            \<lparr>month = monthLabel rt monthKey, customers = int cnt, revenue = jround amt\<rparr>)
       (let es = sort_key fst monthGroups in drop (length es - 12) es)"

definition syntheticTrend :: "runtime \<Rightarrow> nat \<Rightarrow> jsnum \<Rightarrow> nat \<Rightarrow> month_entry list" where
  "syntheticTrend rt c totalRevenue n =
     (let itemsPerMonth = \<lceil>real n / 12\<rceil>
      in map (\<lambda>i. \<lparr>month = shortMonths ! i,
                   customers = min itemsPerMonth (int n - int i * itemsPerMonth),
                   revenue = jround (jmul (jdiv totalRevenue (Fin 12))
                                       (Fin (0.8 + mathRandom rt (c + i) * 0.4)))\<rparr>) [0..<12])"

text \<open>
  \<open>monthlyData\<close> and the counter of draws after it. Nothing in the guarded block raises in
  this model, so the synthetic trend is reached exactly when there is no date field.
\<close>

definition monthlyDataOf ::
  "runtime \<Rightarrow> nat \<Rightarrow> string list \<Rightarrow> string list \<Rightarrow> jsnum \<Rightarrow> table \<Rightarrow> month_entry list \<times> nat" where
  "monthlyDataOf rt c dateFields amountFields totalRevenue data =
     (case dateFields of
        d # _ \<Rightarrow> (realTrend rt (monthGroupsOf rt d amountFields data), c)
      | [] \<Rightarrow> (syntheticTrend rt c totalRevenue (length data), c + 12))"

subsection \<open>Cluster scatter\<close>

record scatter_point =
  pt_x :: jsnum
  pt_y :: jsnum
  pt_cluster :: jsval
  pt_segment :: string

fun clusterVisualization :: "runtime \<Rightarrow> nat \<Rightarrow> string list \<Rightarrow> obj list \<Rightarrow> scatter_point list" where
  "clusterVisualization rt c numericFields [] = []"
| "clusterVisualization rt c numericFields (customer # rest) =
     (let (px, c1) = (case numericFields of
                        [] \<Rightarrow> (Fin (mathRandom rt c * 100), c + 1)
                      | f0 # _ \<Rightarrow> (featureOrZero customer f0, c));
          (py, c2) = (case numericFields of
                        _ # f1 # _ \<Rightarrow> (featureOrZero customer f1, c1)
                      | _ \<Rightarrow> (Fin (mathRandom rt c1 * 100), c1 + 1))
      in \<lparr>pt_x = px, pt_y = py, pt_cluster = clusterOf customer, pt_segment = segmentOf customer\<rparr>
           # clusterVisualization rt c2 numericFields rest)"

subsection \<open>The analysis\<close>

record insights =
  totalCustomers :: nat
  totalRevenue :: jsnum
  avgOrderValue :: jsnum
  customerSegments :: "obj list"
  segmentData :: "segment_entry list"
  monthlyData :: "month_entry list"
  clusterVisualizationData :: "scatter_point list"
  numericFields :: "string list"
  fieldNames :: "string list"
  labelsField :: labels
  topSegment :: string

definition numericFieldsIn :: "table \<Rightarrow> string list" where
  "numericFieldsIn data = numericFieldsOf (fieldsOf data) data"

text \<open>
  \<open>clusterResults\<close>: the library is called whenever the normalised matrix has a row, which
  for a table with a record is always.
\<close>

definition clusterResultsOf :: "runtime \<Rightarrow> table \<Rightarrow> kmeans_result option" where
  "clusterResultsOf rt data =
     (let clusteringData = clusteringDataOf (numericFieldsIn data) data;
          normalizedData = (if clusteringData \<noteq> [] then normalizeData clusteringData else []);
          k = min 5 (length data)
      in if normalizedData \<noteq> [] then Some (kmeans rt normalizedData k) else None)"

definition segmentNamesOf :: "table \<Rightarrow> nat list option \<Rightarrow> string list" where
  "segmentNamesOf data clusterResults =
     generateSegmentNames clusterResults (numericFieldsIn data) (amountFieldsOf data)
       (clusteringDataOf (numericFieldsIn data) data) (min 5 (length data)) (length data)"

definition enrichedOf :: "table \<Rightarrow> nat list option \<Rightarrow> obj list" where
  "enrichedOf data clusterResults =
     customerSegmentsOf clusterResults (segmentNamesOf data clusterResults)
       (amountFieldsOf data) (numericFieldsIn data) data"

text \<open>The object the computation returns, once the labels are made and the library has answered.\<close>

definition snapshotOf :: "runtime \<Rightarrow> table \<Rightarrow> string \<Rightarrow> nat list option \<Rightarrow> insights" where
  "snapshotOf rt data emailField clusterResults =
     (let n = length data;
          revenueTotal = totalRevenueOf (amountFieldsOf data) data;
          segs = enrichedOf data clusterResults;
          ranked = sortByValueDesc (segmentDataOf (segmentCountsOf segs) n);
          (trend, c) = monthlyDataOf rt 0 (dateFieldsOf data) (amountFieldsOf data) revenueTotal data
      in \<lparr>totalCustomers = n,
          totalRevenue = revenueTotal,
          avgOrderValue = avgOrderValueOf revenueTotal n,
          customerSegments = segs,
          segmentData = ranked,
          monthlyData = trend,
          clusterVisualizationData = clusterVisualization rt c (numericFieldsIn data) segs,
          numericFields = numericFieldsIn data,
          fieldNames = fieldsOf data,
          labelsField = labelsOf emailField (amountFieldsOf data),
          topSegment = topSegmentOf ranked\<rparr>)"

text \<open>
  The memoised computation of the dashboard: \<open>Inr None\<close> is the \<open>null\<close> that makes the
  component show its empty state, \<open>Inl\<close> an exception. \<open>emailField.toLowerCase()\<close> raises a
  \<open>TypeError\<close> when the first record has no property, since \<open>emailField\<close> is then
  \<open>undefined\<close>; the labels are made before the library is called.
\<close>

definition insightsOf :: "runtime \<Rightarrow> table option \<Rightarrow> error + insights option" where
  "insightsOf rt input =
     (case input of
        None \<Rightarrow> Inr None
      | Some data \<Rightarrow>
          if data = [] then Inr None
          else (case emailFieldOf (fieldsOf data) of
                  None \<Rightarrow> Inl TypeError
                | Some emailField \<Rightarrow>
                    (case clusterResultsOf rt data of
                       Some Raised \<Rightarrow> Inl LibraryError
                     | Some (Clusters cs) \<Rightarrow> Inr (Some (snapshotOf rt data emailField (Some cs)))
                     | None \<Rightarrow> Inr (Some (snapshotOf rt data emailField None)))))"

section \<open>Example inputs\<close>

text \<open>
  Two records with a name and an amount; the second amount is a number, the first has text
  after its digits. A runtime whose library puts row \<open>i\<close> into cluster \<open>i mod k\<close>, whose
  dates never parse and whose draws are all one half.
\<close>

definition exampleTable :: table where
  "exampleTable =
     [[(''name'', ''ann''), (''total'', ''12abc'')], [(''name'', ''bob''), (''total'', ''700'')]]"

definition exampleRuntime :: runtime where
  "exampleRuntime =
     \<lparr>kmeans = (\<lambda>m k. Clusters (map (\<lambda>i. i mod k) [0..<length m])), newDate = (\<lambda>s. None),
      mathRandom = (\<lambda>i. 1 / 2), monthLabel = (\<lambda>s. s)\<rparr>"

definition exampleDraws :: "nat \<Rightarrow> real" where
  "exampleDraws i = 1 / 2"

text \<open>A table with no amount field.\<close>

definition noAmountTable :: table where
  "noAmountTable = [[(''name'', ''ann'')]]"

text \<open>
  A table whose only record has no property at all, a table of two records with one text
  column, and a runtime whose library raises.
\<close>

definition emptyRecordTable :: table where
  "emptyRecordTable = [[]]"


definition raisingRuntime :: runtime where
  "raisingRuntime =
     \<lparr>kmeans = (\<lambda>m k. Raised), newDate = (\<lambda>s. None),
      mathRandom = (\<lambda>i. 1 / 2), monthLabel = (\<lambda>s. s)\<rparr>"

text \<open>A table with a date column whose only value is the empty string.\<close>

definition undatedTable :: table where
  "undatedTable = [[(''signup_date'', ''''), (''total'', ''5'')]]"

section \<open>The claims as predicates\<close>

text \<open>
  The segment distribution partitions the records: the counts add up to the number of
  records, the names are distinct, every count is the number of records whose segment is
  that name, and the rounded percentages add up to 100 within one per segment.
\<close>

definition partitionOK :: "segment_entry list \<Rightarrow> obj list \<Rightarrow> nat \<Rightarrow> bool" where
  "partitionOK es segs n =
     (length segs = n \<and>
      sum_list (map seg_value es) = n \<and>
      distinct (map seg_name es) \<and>
      (\<forall>e \<in> set es. seg_value e = length (filter (\<lambda>c. segmentOf c = seg_name e) segs)) \<and>
      \<bar>sum_list (map percentage es) - 100\<bar> \<le> int (length es))"

text \<open>
  What the RFM analysis stores as \<open>monetary\<close> and as \<open>mScore\<close> for record \<open>i\<close>, and the
  number of draws it makes for each record.
\<close>

definition rfmMonetaryOf :: "(nat \<Rightarrow> real) \<Rightarrow> table \<Rightarrow> nat \<Rightarrow> jsval option" where
  "rfmMonetaryOf u data i = map_of (rfm_customerSegments (rfmSnapshot u data) ! i) ''monetary''"

definition rfmMScoreOf :: "(nat \<Rightarrow> real) \<Rightarrow> table \<Rightarrow> nat \<Rightarrow> jsval option" where
  "rfmMScoreOf u data i = map_of (rfm_customerSegments (rfmSnapshot u data) ! i) ''mScore''"

definition rfmStride :: "string list \<Rightarrow> nat" where
  "rfmStride amountFields = (if amountFields = [] then 3 else 2)"

text \<open>The properties the K-means analysis writes after the spread of the input record.\<close>

definition derivedKeys :: "string set" where
  "derivedKeys = {''id'', ''cluster'', ''segment'', ''monetary'', ''features''}"

text \<open>A record of the sample generator's shape, with a column named \<open>segment\<close>.\<close>

definition sampleTable :: table where
  "sampleTable =
     [[(''email'', ''a@example.com''), (''total_spent'', ''120''), (''segment'', ''Premium'')],
      [(''email'', ''b@example.com''), (''total_spent'', ''80''), (''segment'', ''Budget'')]]"

text \<open>The cluster indices the analysis works with: those the library returned.\<close>

definition clustersOf :: "runtime \<Rightarrow> table \<Rightarrow> nat list option" where
  "clustersOf rt data =
     (case clusterResultsOf rt data of Some (Clusters cs) \<Rightarrow> Some cs | _ \<Rightarrow> None)"

text \<open>Two tables with the same columns that differ at most in the values of column \<open>k\<close>.\<close>

definition sameExceptColumn :: "string \<Rightarrow> table \<Rightarrow> table \<Rightarrow> bool" where
  "sameExceptColumn k d d' =
     (length d = length d' \<and>
      (\<forall>i < length d. map fst (d ! i) = map fst (d' ! i) \<and>
                       (\<forall>f. f \<noteq> k \<longrightarrow> map_of (d ! i) f = map_of (d' ! i) f)))"

text \<open>The sample table with other values in its \<open>segment\<close> column.\<close>

definition sampleTable' :: table where
  "sampleTable' =
     [[(''email'', ''a@example.com''), (''total_spent'', ''120''), (''segment'', ''Regular'')],
      [(''email'', ''b@example.com''), (''total_spent'', ''80''), (''segment'', ''Premium'')]]"

text \<open>
  The name the claim gives cluster \<open>c\<close>: from the cluster's mean of the primary value
  feature (the first numeric field that is an amount field) against the mean over all
  records, or from the size ratio alone when there is no such feature.
\<close>

definition clusterMean :: "jsnum list list \<Rightarrow> nat list \<Rightarrow> nat \<Rightarrow> nat \<Rightarrow> jsnum" where
  "clusterMean cd clusters c p =
     jdiv (columnSum (clusterPointsOf cd clusters c) p)
       (Fin (real (length (clusterPointsOf cd clusters c))))"

definition globalMean :: "jsnum list list \<Rightarrow> nat \<Rightarrow> jsnum" where
  "globalMean cd p = jdiv (columnSum cd p) (Fin (real (length cd)))"

definition sizeRatio :: "jsnum list list \<Rightarrow> nat list \<Rightarrow> nat \<Rightarrow> real" where
  "sizeRatio cd clusters c = real (length (clusterPointsOf cd clusters c)) / real (length cd)"

definition primaryValueIdx :: "table \<Rightarrow> nat option" where
  "primaryValueIdx data = findIndex (\<lambda>f. f \<in> set (amountFieldsOf data)) (numericFieldsIn data)"

definition claimedName :: "table \<Rightarrow> nat list \<Rightarrow> nat \<Rightarrow> string" where
  "claimedName data clusters c =
     (let cd = clusteringDataOf (numericFieldsIn data) data
      in case primaryValueIdx data of
           Some p \<Rightarrow> valueName (clusterMean cd clusters c p) (globalMean cd p) (sizeRatio cd clusters c)
         | None \<Rightarrow> sizeName (sizeRatio cd clusters c))"

text \<open>The name the analysis gives cluster \<open>c\<close>.\<close>

definition displayName :: "table \<Rightarrow> nat list \<Rightarrow> nat \<Rightarrow> string" where
  "displayName data clusters c = segmentNameOf (segmentNamesOf data (Some clusters)) (Some c)"




text \<open>The double that the literal \<open>0.1\<close> denotes, and a column of three of them.\<close>

definition tenth :: real where
  "tenth = 3602879701896397 / 2 ^ 55"

definition tenths :: "jsnum list list" where
  "tenths = [[Fin tenth], [Fin tenth], [Fin tenth]]"

text \<open>A column of two equal doubles whose sum is beyond the largest double.\<close>

definition halfMax :: real where
  "halfMax = 2 ^ 1023"

definition halves :: "jsnum list list" where
  "halves = [[Fin halfMax], [Fin halfMax]]"

section \<open>Lists of counts\<close>

lemma sum_bump: "sum_list (map snd (bump k ps)) = sum_list (map snd ps) + 1"
  by (induction ps) auto

lemma length_bump_le: "length (bump k ps) \<le> Suc (length ps)"
  by (induction ps) auto

lemma sum_foldl_bump:
  "sum_list (map snd (foldl (\<lambda>acc c. bump (g c) acc) acc cs)) = sum_list (map snd acc) + length cs"
  by (induction cs arbitrary: acc) (simp_all add: sum_bump)

lemma sum_segmentCounts: "sum_list (map snd (segmentCountsOf cs)) = length cs"
  by (simp add: segmentCountsOf_def sum_foldl_bump)

lemma map_of_bump:
  "map_of (bump k ps) = (map_of ps)(k \<mapsto> (case map_of ps k of None \<Rightarrow> 1 | Some c \<Rightarrow> c + 1))"
  by (induction ps) (auto simp: fun_eq_iff)

lemma fst_set_bump: "fst ` set (bump k ps) = insert k (fst ` set ps)"
proof (induction ps)
  case Nil
  show ?case by simp
next
  case (Cons p ps)
  obtain k' c where p: "p = (k', c)" by (cases p)
  show ?case
    by (cases "k' = k") (simp_all add: p Cons.IH insert_commute)
qed

lemma distinct_bump: "distinct (map fst ps) \<Longrightarrow> distinct (map fst (bump k ps))"
  by (induction ps) (auto simp: fst_set_bump)

lemma map_of_foldl_bump:
  "map_of (foldl (\<lambda>acc c. bump (g c) acc) acc cs) k =
     (let m = length (filter (\<lambda>c. g c = k) cs)
      in case map_of acc k of None \<Rightarrow> (if m = 0 then None else Some m) | Some c \<Rightarrow> Some (c + m))"
  by (induction cs arbitrary: acc) (auto simp: map_of_bump Let_def split: option.splits)

lemma distinct_foldl_bump:
  "distinct (map fst acc) \<Longrightarrow> distinct (map fst (foldl (\<lambda>acc c. bump (g c) acc) acc cs))"
  by (induction cs arbitrary: acc) (simp_all add: distinct_bump)

lemma sum_insort_key: "sum_list (map f (insort_key g x xs)) = f x + sum_list (map f xs)"
  for f :: "'a \<Rightarrow> 'b::comm_monoid_add"
  by (induction xs) (auto simp: add.left_commute)

lemma sum_sort_key: "sum_list (map f (sort_key g xs)) = sum_list (map f xs)"
  for f :: "'a \<Rightarrow> 'b::comm_monoid_add"
  by (induction xs) (simp_all add: sum_insort_key)

lemma round_bounds:
  fixes vs :: "nat list"
  assumes "0 < n"
  shows "\<bar>real_of_int (sum_list (map (\<lambda>v. percentageOf v n) vs)) - 100 * real (sum_list vs) / real n\<bar>
           \<le> real (length vs) / 2"
proof (induction vs)
  case Nil
  then show ?case by simp
next
  case (Cons v vs)
  have "\<bar>real_of_int (percentageOf v n) - 100 * real v / real n\<bar> \<le> 1 / 2"
    unfolding percentageOf_def by linarith
  moreover have "100 * real (sum_list (v # vs)) / real n = 100 * real v / real n + 100 * real (sum_list vs) / real n"
    by (simp add: add_divide_distrib distrib_left)
  moreover have "real_of_int (sum_list (map (\<lambda>v. percentageOf v n) (v # vs))) =
      real_of_int (percentageOf v n) + real_of_int (sum_list (map (\<lambda>v. percentageOf v n) vs))"
    by simp
  moreover have "real (length (v # vs)) / 2 = 1 / 2 + real (length vs) / 2"
    by simp
  ultimately show ?case using Cons.IH by linarith
qed



lemma map_of_segmentCounts:
  "map_of (segmentCountsOf cs) k =
     (let m = length (filter (\<lambda>c. segmentOf c = k) cs) in if m = 0 then None else Some m)"
  by (simp add: segmentCountsOf_def map_of_foldl_bump)

lemma distinct_segmentCounts: "distinct (map fst (segmentCountsOf cs))"
  by (simp add: segmentCountsOf_def distinct_foldl_bump)

lemma segmentCounts_entry:
  assumes "(k, v) \<in> set (segmentCountsOf cs)"
  shows "v = length (filter (\<lambda>c. segmentOf c = k) cs)"
proof -
  have "map_of (segmentCountsOf cs) k = Some v"
    using assms distinct_segmentCounts by simp
  then show ?thesis
    by (simp add: map_of_segmentCounts Let_def split: if_splits)
qed

lemma map_seg_value_segmentDataOf: "map seg_value (segmentDataOf sc n) = map snd sc"
  by (simp add: segmentDataOf_def split_beta)

lemma map_seg_name_segmentDataOf: "map seg_name (segmentDataOf sc n) = map fst sc"
  by (simp add: segmentDataOf_def split_beta)

lemma map_percentage_segmentDataOf:
  "map percentage (segmentDataOf sc n) = map (\<lambda>v. percentageOf v n) (map snd sc)"
  by (simp add: segmentDataOf_def split_beta)

lemma distinct_map_insort_key:
  "distinct (map f (insort_key g x xs)) = (f x \<notin> f ` set xs \<and> distinct (map f xs))"
  by (induction xs) (auto simp: set_insort_key)

lemma distinct_map_sort_key:
  "distinct (map f (sort_key g xs)) = distinct (map f xs)"
  by (induction xs) (simp_all add: distinct_map_insort_key)

lemma partitionOK_ranked:
  assumes "segs \<noteq> []"
  shows "partitionOK (sortByValueDesc (segmentDataOf (segmentCountsOf segs) (length segs))) segs (length segs)"
proof -
  let ?sc = "segmentCountsOf segs" and ?n = "length segs"
  let ?es = "segmentDataOf ?sc ?n"
  have n: "0 < ?n" using assms by simp
  have s1: "sum_list (map seg_value ?es) = ?n"
    by (simp add: map_seg_value_segmentDataOf sum_segmentCounts)
  have d: "distinct (map seg_name ?es)"
    by (simp add: map_seg_name_segmentDataOf distinct_segmentCounts)
  have c: "\<forall>e \<in> set ?es. seg_value e = length (filter (\<lambda>c. segmentOf c = seg_name e) segs)"
    by (auto simp: segmentDataOf_def dest: segmentCounts_entry)
  have "\<bar>real_of_int (sum_list (map percentage ?es)) - 100 * real (sum_list (map snd ?sc)) / real ?n\<bar>
          \<le> real (length (map snd ?sc)) / 2"
    unfolding map_percentage_segmentDataOf by (rule round_bounds [OF n])
  moreover have "100 * real (sum_list (map snd ?sc)) / real ?n = 100"
    using n by (simp add: sum_segmentCounts)
  moreover have "length (map snd ?sc) = length ?es"
    by (simp add: segmentDataOf_def)
  ultimately have "\<bar>real_of_int (sum_list (map percentage ?es)) - 100\<bar> \<le> real (length ?es)"
    by simp
  then have p: "\<bar>sum_list (map percentage ?es) - 100\<bar> \<le> int (length ?es)"
    by linarith
  show ?thesis
    unfolding partitionOK_def sortByValueDesc_def
    using s1 d c p by (simp add: sum_sort_key distinct_map_sort_key)
qed

section \<open>The shape of the two analyses\<close>

lemma length_rfmCustomers: "length (fst (rfmCustomers u af c i data)) = length data"
  by (induction data arbitrary: c i) (simp_all add: split_beta Let_def)

lemma length_customerSegmentsOf: "length (customerSegmentsOf cr names af nfs data) = length data"
  by (simp add: customerSegmentsOf_def)

lemma length_enrichedOf: "length (enrichedOf data cr) = length data"
  by (simp add: enrichedOf_def length_customerSegmentsOf)

lemma rfm_segmentData_snapshot:
  "rfm_segmentData (rfmSnapshot u data) =
     sortByValueDesc (segmentDataOf
       (segmentCountsOf (fst (rfmCustomers u (amountFieldsOf data) 0 0 data))) (length data))"
  by (simp add: rfmSnapshot_def Let_def split_beta)

lemma rfm_customerSegments_snapshot:
  "rfm_customerSegments (rfmSnapshot u data) = fst (rfmCustomers u (amountFieldsOf data) 0 0 data)"
  by (simp add: rfmSnapshot_def Let_def split_beta)

lemma segmentData_snapshot:
  "segmentData (snapshotOf rt data e cr) =
     sortByValueDesc (segmentDataOf (segmentCountsOf (enrichedOf data cr)) (length data))"
  by (simp add: snapshotOf_def Let_def split_beta)

lemma customerSegments_snapshot:
  "customerSegments (snapshotOf rt data e cr) = enrichedOf data cr"
  by (simp add: snapshotOf_def Let_def split_beta)

lemma length_normalizeData: "length (normalizeData d) = length d"
  by (simp add: normalizeData_def Let_def)

lemma clusterResultsOf_nonempty:
  assumes "data \<noteq> []"
  shows "clusterResultsOf rt data =
           Some (kmeans rt (normalizeData (clusteringDataOf (numericFieldsIn data) data))
                   (min 5 (length data)))"
proof -
  have "clusteringDataOf (numericFieldsIn data) data \<noteq> []"
    using assms by (simp add: clusteringDataOf_def)
  moreover from this have "normalizeData (clusteringDataOf (numericFieldsIn data) data) \<noteq> []"
    using length_normalizeData [of "clusteringDataOf (numericFieldsIn data) data"] by auto
  ultimately show ?thesis
    by (simp add: clusterResultsOf_def Let_def)
qed

lemma emailFieldOf_None: "emailFieldOf fs = None \<longleftrightarrow> fs = []"
  by (auto simp: emailFieldOf_def split: option.splits list.splits)

lemma insightsOf_snapshot:
  assumes "insightsOf rt (Some data) = Inr (Some t)"
  shows "data \<noteq> [] \<and> (\<exists>e cr. t = snapshotOf rt data e cr)"
  using assms
  by (auto simp: insightsOf_def split: if_splits option.splits kmeans_result.splits)

lemma insightsOf_returns:
  assumes "data \<noteq> []" and "fieldsOf data \<noteq> []" and "clusterResultsOf rt data \<noteq> Some Raised"
  shows "\<exists>t. insightsOf rt (Some data) = Inr (Some t)"
  using assms
  by (auto simp: insightsOf_def emailFieldOf_None split: option.splits kmeans_result.splits)

section \<open>Objects and the RFM records\<close>

lemmas parse_eval = parseFloat_def toNumber_def isFinite_def trim_def trimStart_def
  strDecimalLiteral_def unsignedDecimal_def nonDecimalLiteral_def radixValue_def radixDigit_def
  startsWith_def isDigit_def isWhiteSpace_def exponentPart_def digitsValue_def finiteOrInf_def
  overflowBound_def scale10_def

lemmas field_eval = fieldsOf_def amountFieldsOf_def dateFieldsOf_def isAmountField_def
  isDateField_def isEmailField_def toLowerCase_def lowerChar_def startsWith_def has_def
  char_of_def bit_Suc_0_iff

lemmas label_eval = segmentLabel_def digitChar_def char_of_def bit_Suc_0_iff

lemma snd_rfmAmount: "snd (rfmAmount u af c r) = c + (rfmStride af - 2)"
  by (simp add: rfmAmount_def rfmStride_def split: list.splits)

lemma snd_rfmCustomer: "snd (rfmCustomer u af c i r) = c + rfmStride af"
proof -
  have "snd (rfmCustomer u af c i r) = snd (rfmAmount u af c r) + 2"
    by (simp add: rfmCustomer_def Let_def split_beta)
  then show ?thesis
    by (simp add: snd_rfmAmount rfmStride_def)
qed

lemma nth_rfmCustomers:
  "i < length data \<Longrightarrow>
   fst (rfmCustomers u af c idx data) ! i =
     fst (rfmCustomer u af (c + rfmStride af * i) (idx + i) (data ! i))"
proof (induction data arbitrary: c idx i)
  case Nil
  then show ?case by simp
next
  case (Cons r rs)
  show ?case
  proof (cases i)
    case 0
    then show ?thesis by (simp add: split_beta Let_def)
  next
    case (Suc j)
    with Cons.prems have j: "j < length rs" by simp
    have "fst (rfmCustomers u af c idx (r # rs)) ! i =
          fst (rfmCustomers u af (snd (rfmCustomer u af c idx r)) (idx + 1) rs) ! j"
      by (simp add: Suc split_beta Let_def)
    also have "\<dots> = fst (rfmCustomer u af (c + rfmStride af + rfmStride af * j) (idx + 1 + j) (rs ! j))"
      using Cons.IH [OF j] by (simp add: snd_rfmCustomer)
    finally show ?thesis by (simp add: Suc add.assoc)
  qed
qed

lemma map_of_setProps_Nil: "map_of (setProps ob []) = map_of ob"
  by (simp add: setProps_def)

lemma map_of_setProps_Cons:
  "map_of (setProps ob ((k, v) # kvs)) = map_of (setProps (AList.update k v ob) kvs)"
  by (simp add: setProps_def)

lemma map_of_setProps:
  "map_of (setProps ob kvs) k = (case map_of (rev kvs) k of Some v \<Rightarrow> Some v | None \<Rightarrow> map_of ob k)"
proof (induction kvs arbitrary: ob)
  case Nil
  then show ?case by (simp add: setProps_def)
next
  case (Cons kv kvs)
  obtain k' v' where kv: "kv = (k', v')" by (cases kv)
  have "map_of (setProps ob (kv # kvs)) k = map_of (setProps (AList.update k' v' ob) kvs) k"
    by (simp add: kv setProps_def)
  also have "\<dots> = (case map_of (rev kvs) k of Some v \<Rightarrow> Some v | None \<Rightarrow> map_of (AList.update k' v' ob) k)"
    by (rule Cons.IH)
  finally show ?case
    by (simp add: kv update_conv' map_add_def split: option.splits)
qed

lemma rfmCustomer_monetary:
  "map_of (fst (rfmCustomer u af c i r)) ''monetary'' = Some (VNum (fst (rfmAmount u af c r)))"
  by (simp add: rfmCustomer_def Let_def split_beta map_of_setProps)

lemma rfmCustomer_mScore:
  "map_of (fst (rfmCustomer u af c i r)) ''mScore'' =
     Some (VNum (Fin (real (mScoreOf (fst (rfmAmount u af c r))))))"
  by (simp add: rfmCustomer_def Let_def split_beta map_of_setProps)

section \<open>Claims\<close>

text \<open>
  C1. For every table with a record and for both segmentation strategies, the counts of
  the segment distribution add up to the number of records, every record being counted
  under exactly one segment name, and the rounded percentages add up to 100 within one
  per segment. The RFM analysis always returns its result; the K-means analysis returns
  one whenever the first record has a property and the library does not raise.
\<close>

theorem C1_segment_counts_partition:
  assumes "data \<noteq> []"
  shows "(\<exists>s. rfmInsights u (Some data) = Some s \<and>
              partitionOK (rfm_segmentData s) (rfm_customerSegments s) (length data)) \<and>
         (\<forall>t. insightsOf rt (Some data) = Inr (Some t) \<longrightarrow>
              partitionOK (segmentData t) (customerSegments t) (length data)) \<and>
         (fieldsOf data \<noteq> [] \<and> clusterResultsOf rt data \<noteq> Some Raised \<longrightarrow>
              (\<exists>t. insightsOf rt (Some data) = Inr (Some t)))"
proof (intro conjI allI impI)
  let ?segs = "fst (rfmCustomers u (amountFieldsOf data) 0 0 data)"
  have len: "length ?segs = length data" by (rule length_rfmCustomers)
  then have "?segs \<noteq> []" using assms by auto
  from partitionOK_ranked [OF this]
  have "partitionOK (rfm_segmentData (rfmSnapshot u data)) (rfm_customerSegments (rfmSnapshot u data))
          (length data)"
    by (simp add: rfm_segmentData_snapshot rfm_customerSegments_snapshot len)
  then show "\<exists>s. rfmInsights u (Some data) = Some s \<and>
              partitionOK (rfm_segmentData s) (rfm_customerSegments s) (length data)"
    using assms by (simp add: rfmInsights_def)
next
  fix t
  assume "insightsOf rt (Some data) = Inr (Some t)"
  then obtain e cr where t: "t = snapshotOf rt data e cr"
    using insightsOf_snapshot by blast
  have len: "length (enrichedOf data cr) = length data" by (rule length_enrichedOf)
  then have "enrichedOf data cr \<noteq> []" using assms by auto
  from partitionOK_ranked [OF this]
  show "partitionOK (segmentData t) (customerSegments t) (length data)"
    by (simp add: t segmentData_snapshot customerSegments_snapshot len)
next
  assume "fieldsOf data \<noteq> [] \<and> clusterResultsOf rt data \<noteq> Some Raised"
  then show "\<exists>t. insightsOf rt (Some data) = Inr (Some t)"
    using assms insightsOf_returns by blast
qed

theorem C1_partition_witness:
  "exampleTable \<noteq> [] \<and>
   (\<exists>s. rfmInsights exampleDraws (Some exampleTable) = Some s \<and>
        partitionOK (rfm_segmentData s) (rfm_customerSegments s) 2) \<and>
   (\<exists>t. insightsOf exampleRuntime (Some exampleTable) = Inr (Some t) \<and>
        partitionOK (segmentData t) (customerSegments t) 2)"
proof -
  have ne: "exampleTable \<noteq> []" by (simp add: exampleTable_def)
  have len: "length exampleTable = 2" by (simp add: exampleTable_def)
  have f: "fieldsOf exampleTable \<noteq> []" by (simp add: fieldsOf_def exampleTable_def)
  have k: "clusterResultsOf exampleRuntime exampleTable \<noteq> Some Raised"
    by (simp add: clusterResultsOf_nonempty [OF ne] exampleRuntime_def)
  show ?thesis
    using C1_segment_counts_partition [OF ne, of exampleDraws exampleRuntime] ne f k
    by (auto simp: len)
qed

lemma orZero_parse: "orZero x = (if isNaN x \<or> x = Fin 0 then Fin 0 else x)"
  by (cases x) auto

text \<open>
  C6 (amended). In the RFM analysis the amount that is scored and stored as \<open>monetary\<close> is,
  for a table with an amount field, the parsed float of the record's first amount field,
  and 0 when that value does not parse; for a table with no amount field it is not 0 but a
  draw of \<open>Math.random()\<close> times 1000, which lies in \<open>[0, 1000)\<close>.
\<close>

theorem C6_rfm_monetary_amended:
  assumes "i < length data"
  shows "(\<forall>a rest. amountFieldsOf data = a # rest \<longrightarrow>
            rfmMonetaryOf u data i = Some (VNum (primaryAmount (amountFieldsOf data) (data ! i))) \<and>
            rfmMScoreOf u data i =
              Some (VNum (Fin (real (mScoreOf (primaryAmount (amountFieldsOf data) (data ! i)))))) \<and>
            primaryAmount (amountFieldsOf data) (data ! i) =
              (if isNaN (parseFloat (map_of (data ! i) a)) then Fin 0
               else parseFloat (map_of (data ! i) a))) \<and>
         (amountFieldsOf data = [] \<longrightarrow>
            rfmMonetaryOf u data i = Some (VNum (Fin (u (3 * i) * 1000))) \<and>
            rfmMScoreOf u data i = Some (VNum (Fin (real (mScoreOf (Fin (u (3 * i) * 1000)))))) \<and>
            (0 \<le> u (3 * i) \<and> u (3 * i) < 1 \<longrightarrow> 0 \<le> u (3 * i) * 1000 \<and> u (3 * i) * 1000 < 1000))"
proof -
  let ?af = "amountFieldsOf data"
  have nth: "rfm_customerSegments (rfmSnapshot u data) ! i =
               fst (rfmCustomer u ?af (rfmStride ?af * i) i (data ! i))"
    using nth_rfmCustomers [OF assms, of u ?af 0 0] by (simp add: rfm_customerSegments_snapshot)
  have p: "primaryAmount (a # rest) r =
             (if isNaN (parseFloat (map_of r a)) then Fin 0 else parseFloat (map_of r a))"
    for a rest r
    by (auto simp: primaryAmount_def amountIn_def orZero_parse)
  show ?thesis
    unfolding rfmMonetaryOf_def rfmMScoreOf_def nth rfmCustomer_monetary rfmCustomer_mScore
    by (auto simp: rfmAmount_def rfmStride_def p) (simp_all add: amountIn_def orZero_parse)
qed

theorem C6_rfm_monetary_witness:
  "(0::nat) < length exampleTable \<and> amountFieldsOf exampleTable = [''total''] \<and>
   rfmMonetaryOf exampleDraws exampleTable 0 = Some (VNum (Fin 12)) \<and>
   rfmMScoreOf exampleDraws exampleTable 0 = Some (VNum (Fin 1)) \<and>
   (0::nat) < length noAmountTable \<and> amountFieldsOf noAmountTable = [] \<and>
   rfmMonetaryOf exampleDraws noAmountTable 0 = Some (VNum (Fin 500)) \<and>
   rfmMScoreOf exampleDraws noAmountTable 0 = Some (VNum (Fin 3))"
proof -
  have l1: "(0::nat) < length exampleTable" by (simp add: exampleTable_def)
  have a1: "amountFieldsOf exampleTable = [''total'']"
    by (simp add: exampleTable_def field_eval)
  have p1: "primaryAmount [''total''] (exampleTable ! 0) = Fin 12"
    by (simp add: exampleTable_def primaryAmount_def amountIn_def parse_eval)
  have m1: "mScoreOf (Fin 12) = 1" by (simp add: mScoreOf_def)
  have l0: "(0::nat) < length noAmountTable" by (simp add: noAmountTable_def)
  have a0: "amountFieldsOf noAmountTable = []"
    by (simp add: noAmountTable_def field_eval)
  have m0: "mScoreOf (Fin (exampleDraws (3 * 0) * 1000)) = 3 \<and> exampleDraws (3 * 0) * 1000 = 500"
    by (simp add: mScoreOf_def exampleDraws_def)
  from C6_rfm_monetary_amended [OF l1, of exampleDraws]
  have "rfmMonetaryOf exampleDraws exampleTable 0 = Some (VNum (Fin 12)) \<and>
        rfmMScoreOf exampleDraws exampleTable 0 = Some (VNum (Fin 1))"
    unfolding a1 p1 m1 by simp
  moreover from C6_rfm_monetary_amended [OF l0, of exampleDraws]
  have "rfmMonetaryOf exampleDraws noAmountTable 0 = Some (VNum (Fin 500)) \<and>
        rfmMScoreOf exampleDraws noAmountTable 0 = Some (VNum (Fin 3))"
    using a0 m0 by simp
  ultimately show ?thesis using l1 l0 a1 a0 by simp
qed

text \<open>
  The claim as stated fails on a table with no amount field: with a draw of one half the
  record's \<open>monetary\<close> is 500, where the claim says 0.
\<close>

theorem C6_counterexample:
  "amountFieldsOf noAmountTable = [] \<and>
   rfmMonetaryOf exampleDraws noAmountTable 0 = Some (VNum (Fin 500)) \<and>
   primaryAmount (amountFieldsOf noAmountTable) (noAmountTable ! 0) = Fin 0 \<and>
   rfmMonetaryOf exampleDraws noAmountTable 0
     \<noteq> Some (VNum (primaryAmount (amountFieldsOf noAmountTable) (noAmountTable ! 0)))"
  by (simp add: rfmMonetaryOf_def rfmSnapshot_def noAmountTable_def field_eval
      rfmCustomer_def rfmAmount_def exampleDraws_def primaryAmount_def Let_def map_of_setProps)

lemma insightsOf_null: "insightsOf rt None = Inr None"
  by (simp add: insightsOf_def)

lemma insightsOf_empty: "insightsOf rt (Some []) = Inr None"
  by (simp add: insightsOf_def)

lemma insightsOf_raises_iff:
  assumes "data \<noteq> []"
  shows "(\<exists>e. insightsOf rt (Some data) = Inl e) \<longleftrightarrow>
           fieldsOf data = [] \<or> clusterResultsOf rt data = Some Raised"
proof -
  have "emailFieldOf (fieldsOf data) = None \<longleftrightarrow> fieldsOf data = []"
    by (rule emailFieldOf_None)
  then show ?thesis
    using assms
    by (cases "emailFieldOf (fieldsOf data)")
      (auto simp: insightsOf_def split: option.splits kmeans_result.splits)
qed

lemma foldl_jadd_zero:
  assumes "\<And>r. r \<in> set data \<Longrightarrow> g r = Fin 0"
  shows "foldl (\<lambda>sum r. jadd sum (g r)) (Fin 0) data = Fin 0"
  using assms by (induction data) simp_all

lemma totalRevenue_garbage:
  assumes "amountFieldsOf data = a # rest"
    and "\<And>r. r \<in> set data \<Longrightarrow> isNaN (parseFloat (map_of r a))"
  shows "totalRevenueOf (amountFieldsOf data) data = Fin 0"
proof -
  have "amountIn a r = Fin 0" if "r \<in> set data" for r
    using assms(2) [OF that] by (cases "parseFloat (map_of r a)") (simp_all add: amountIn_def)
  then show ?thesis
    by (simp add: totalRevenueOf_def assms(1) foldl_jadd_zero)
qed

lemma totalRevenue_snapshot:
  "totalRevenue (snapshotOf rt data e cr) = totalRevenueOf (amountFieldsOf data) data"
  by (simp add: snapshotOf_def Let_def split_beta)

lemma insightsOf_garbage_revenue:
  assumes "insightsOf rt (Some data) = Inr (Some t)"
    and "amountFieldsOf data = a # rest"
    and "\<And>r. r \<in> set data \<Longrightarrow> isNaN (parseFloat (map_of r a))"
  shows "totalRevenue t = Fin 0"
proof -
  obtain e cr where "t = snapshotOf rt data e cr"
    using insightsOf_snapshot [OF assms(1)] by blast
  then show ?thesis
    by (simp add: totalRevenue_snapshot totalRevenue_garbage [OF assms(2,3)])
qed

text \<open>
  C2 (the code departs from the claim). The analysis does raise: for a table whose first
  record has no property, \<open>emailField\<close> is \<open>undefined\<close> and making the labels raises a
  \<open>TypeError\<close>; and an exception of the clustering library is not caught. The two particular
  cases of the claim hold (\<open>insightsOf_null\<close>, \<open>insightsOf_empty\<close>,
  \<open>insightsOf_garbage_revenue\<close>), and \<open>insightsOf_raises_iff\<close> says when the analysis raises.
\<close>

theorem C2_empty_record_raises:
  "insightsOf rt (Some emptyRecordTable) = Inl TypeError \<and>
   insightsOf raisingRuntime (Some exampleTable) = Inl LibraryError"
proof -
  have "insightsOf rt (Some emptyRecordTable) = Inl TypeError"
    by (simp add: insightsOf_def emptyRecordTable_def fieldsOf_def emailFieldOf_def)
  moreover have ne: "exampleTable \<noteq> []" by (simp add: exampleTable_def)
  have "fieldsOf exampleTable = [''name'', ''total'']"
    by (simp add: fieldsOf_def exampleTable_def)
  then have "emailFieldOf (fieldsOf exampleTable) = Some ''name''"
    by (simp add: emailFieldOf_def field_eval)
  then have "insightsOf raisingRuntime (Some exampleTable) = Inl LibraryError"
    using ne by (simp add: insightsOf_def clusterResultsOf_nonempty [OF ne] raisingRuntime_def)
  ultimately show ?thesis by simp
qed


lemma normalizeData_no_columns: "hd d = [] \<Longrightarrow> normalizeData d = d"
  by (simp add: normalizeData_def)


lemma nth_enrichedOf:
  "i < length data \<Longrightarrow>
   enrichedOf data cr ! i =
     customerSegment cr (segmentNamesOf data cr) (amountFieldsOf data) (numericFieldsIn data) i (data ! i)"
  by (simp add: enrichedOf_def customerSegmentsOf_def)

lemma customerSegment_cluster:
  "clusterOf (customerSegment cr names af nfs i r) = clusterValue (clusterIdOf cr i)"
  by (simp add: clusterOf_def customerSegment_def Let_def map_of_setProps)

lemma map_clusterOf_enriched:
  "map clusterOf (enrichedOf data cr) = map (\<lambda>i. clusterValue (clusterIdOf cr i)) [0..<length data]"
  by (rule nth_equalityI) (simp_all add: length_enrichedOf nth_enrichedOf customerSegment_cluster)

lemma zero_columns_library_called:
  assumes "data \<noteq> []" and "numericFieldsIn data = []"
  shows "clusterResultsOf rt data =
           Some (kmeans rt (replicate (length data) []) (min 5 (length data)))"
proof -
  have cd: "clusteringDataOf (numericFieldsIn data) data = replicate (length data) []"
    by (simp add: assms(2) clusteringDataOf_def map_replicate_const)
  have "hd (replicate (length data) ([] :: jsnum list)) = []"
    using assms(1) by (cases data) simp_all
  then show ?thesis
    unfolding clusterResultsOf_nonempty [OF assms(1)] cd
    by (simp add: normalizeData_no_columns)
qed


lemma monthGroupsOf_Nil: "monthGroupsOf rt d af [] = []"
  by (simp add: monthGroupsOf_def)

lemma foldl_months_invalid:
  assumes "\<And>r. r \<in> set data \<Longrightarrow> dateOf rt (map_of r d) = None"
  shows "foldl (\<lambda>acc r. case dateOf rt (map_of r d) of
                          None \<Rightarrow> acc
                        | Some (y, m) \<Rightarrow> addToMonth (monthKeyOf y m) (primaryAmount af r) acc)
           acc data = acc"
  using assms by (induction data arbitrary: acc) simp_all

lemma monthGroupsOf_invalid:
  assumes "\<And>r. r \<in> set data \<Longrightarrow> dateOf rt (map_of r d) = None"
  shows "monthGroupsOf rt d af data = []"
  unfolding monthGroupsOf_def by (rule foldl_months_invalid) (rule assms)

lemma foldl_months_dropped:
  "foldl (\<lambda>acc r. case dateOf rt (map_of r d) of
                     None \<Rightarrow> acc
                   | Some (y, m) \<Rightarrow> addToMonth (monthKeyOf y m) (primaryAmount af r) acc)
     acc data =
   foldl (\<lambda>acc r. case dateOf rt (map_of r d) of
                     None \<Rightarrow> acc
                   | Some (y, m) \<Rightarrow> addToMonth (monthKeyOf y m) (primaryAmount af r) acc)
     acc (filter (\<lambda>r. dateOf rt (map_of r d) \<noteq> None) data)"
proof (induction data arbitrary: acc)
  case Nil
  show ?case by simp
next
  case (Cons r rs)
  show ?case
    by (cases "dateOf rt (map_of r d)") (simp_all add: Cons.IH)
qed

lemma monthGroupsOf_dropped:
  "monthGroupsOf rt d af data =
     monthGroupsOf rt d af (filter (\<lambda>r. dateOf rt (map_of r d) \<noteq> None) data)"
  unfolding monthGroupsOf_def by (rule foldl_months_dropped)

lemma realTrend_Nil: "realTrend rt [] = []"
  by (simp add: realTrend_def)

lemma monthlyData_snapshot:
  "monthlyData (snapshotOf rt data e cr) =
     fst (monthlyDataOf rt 0 (dateFieldsOf data) (amountFieldsOf data)
            (totalRevenueOf (amountFieldsOf data) data) data)"
  by (simp add: snapshotOf_def Let_def split_beta)

lemma monthlyData_no_date_field:
  assumes "dateFieldsOf data = []"
  shows "monthlyData (snapshotOf rt data e cr) =
           syntheticTrend rt 0 (totalRevenueOf (amountFieldsOf data) data) (length data)"
  by (simp add: monthlyData_snapshot monthlyDataOf_def assms)

lemma monthlyData_date_field:
  assumes "dateFieldsOf data = d # ds"
  shows "monthlyData (snapshotOf rt data e cr) =
           realTrend rt (monthGroupsOf rt d (amountFieldsOf data) data)"
  by (simp add: monthlyData_snapshot monthlyDataOf_def assms)

lemma length_syntheticTrend: "length (syntheticTrend rt c tr n) = 12"
  by (simp add: syntheticTrend_def Let_def)

lemma monthlyData_all_invalid:
  assumes "dateFieldsOf data = d # ds"
    and "\<And>r. r \<in> set data \<Longrightarrow> dateOf rt (map_of r d) = None"
  shows "monthlyData (snapshotOf rt data e cr) = []"
  by (simp add: monthlyData_date_field [OF assms(1)] monthGroupsOf_invalid [OF assms(2)] realTrend_Nil)

text \<open>
  C7 (the code departs from the claim). Records whose date does not parse are dropped
  (\<open>monthGroupsOf_dropped\<close>) and a table with no date field gets the synthetic trend
  (\<open>monthlyData_no_date_field\<close>); but when a date field exists and no date parses, the block
  returns the empty list of buckets (\<open>monthlyData_all_invalid\<close>): the synthetic trend after it
  is not reached. For the table whose date is the empty string the trend is empty.
\<close>

theorem C7_no_fallback_on_zero_buckets:
  "dateFieldsOf undatedTable = [''signup_date''] \<and>
   (\<exists>t. insightsOf exampleRuntime (Some undatedTable) = Inr (Some t) \<and> monthlyData t = [])"
proof -
  have ne: "undatedTable \<noteq> []" by (simp add: undatedTable_def)
  have d: "dateFieldsOf undatedTable = [''signup_date'']"
    by (simp add: undatedTable_def field_eval)
  have f: "fieldsOf undatedTable \<noteq> []"
    by (simp add: undatedTable_def fieldsOf_def)
  have k: "clusterResultsOf exampleRuntime undatedTable \<noteq> Some Raised"
    by (simp add: clusterResultsOf_nonempty [OF ne] exampleRuntime_def)
  obtain t where t: "insightsOf exampleRuntime (Some undatedTable) = Inr (Some t)"
    using insightsOf_returns [OF ne f k] by blast
  then obtain e cr where s: "t = snapshotOf exampleRuntime undatedTable e cr"
    using insightsOf_snapshot by blast
  have inv: "dateOf exampleRuntime (map_of r ''signup_date'') = None" for r
    by (simp add: dateOf_def exampleRuntime_def split: option.splits)
  have "monthlyData t = []"
    unfolding s by (rule monthlyData_all_invalid [OF d]) (rule inv)
  with t d show ?thesis by blast
qed

lemma upt_12: "[0..<12] = [0, 1, 2, 3, 4, 5, 6, 7, 8, 9, 10, 11]"
  by (simp add: upt_rec)

lemma customers_syntheticTrend:
  "map customers (syntheticTrend rt c tr n) =
     map (\<lambda>i. min \<lceil>real n / 12\<rceil> (int n - int i * \<lceil>real n / 12\<rceil>)) [0..<12]"
  by (simp add: syntheticTrend_def Let_def)

lemma revenue_syntheticTrend:
  "i < 12 \<Longrightarrow>
   revenue (syntheticTrend rt c tr n ! i) =
     jround (jmul (jdiv tr (Fin 12)) (Fin (0.8 + mathRandom rt (c + i) * 0.4)))"
  by (simp add: syntheticTrend_def Let_def)

lemma jitter_range:
  "0 \<le> (u::real) \<Longrightarrow> u < 1 \<Longrightarrow> 0.8 \<le> 0.8 + u * 0.4 \<and> 0.8 + u * 0.4 < 1.2"
  by simp

lemma customers_even:
  assumes "n = 12 * m"
  shows "map customers (syntheticTrend rt c tr n) = replicate 12 (int m)"
proof -
  have "\<lceil>real n / 12\<rceil> = int m" by (simp add: assms)
  then have "map customers (syntheticTrend rt c tr n) =
      map (\<lambda>i. min (int m) (int n - int i * int m)) [0..<12]"
    by (simp add: customers_syntheticTrend)
  also have "\<dots> = map (\<lambda>i. int m) [0..<12]"
  proof (rule map_cong [OF refl])
    fix i assume "i \<in> set [0..<12]"
    then have "i \<le> 11" by simp
    then have "int i * int m \<le> 11 * int m" by (simp add: mult_right_mono)
    then show "min (int m) (int n - int i * int m) = int m" by (simp add: assms)
  qed
  also have "\<dots> = replicate 12 (int m)" by (simp add: map_replicate_const)
  finally show ?thesis .
qed

text \<open>
  C9 (the code departs from the claim). The synthetic trend has twelve buckets and each
  revenue is the rounded twelfth of the total times a factor in \<open>[0.8, 1.2)\<close>
  (\<open>length_syntheticTrend\<close>, \<open>revenue_syntheticTrend\<close>, \<open>jitter_range\<close>), but the record counts
  are \<open>min(itemsPerMonth, n - i * itemsPerMonth)\<close> with nothing keeping them at or above 0:
  they are even when 12 divides the number of records (\<open>customers_even\<close>), and for a table
  of one record they are 1, 0, -1, ..., -10, which add up to -54.
\<close>

theorem C9_negative_counts:
  "dateFieldsOf noAmountTable = [] \<and>
   (\<exists>t. insightsOf exampleRuntime (Some noAmountTable) = Inr (Some t) \<and>
        length (monthlyData t) = 12 \<and>
        map customers (monthlyData t) = [1, 0, -1, -2, -3, -4, -5, -6, -7, -8, -9, -10] \<and>
        sum_list (map customers (monthlyData t)) = -54)"
proof -
  have ne: "noAmountTable \<noteq> []" by (simp add: noAmountTable_def)
  have len: "length noAmountTable = 1" by (simp add: noAmountTable_def)
  have d: "dateFieldsOf noAmountTable = []"
    by (simp add: noAmountTable_def field_eval)
  have f: "fieldsOf noAmountTable \<noteq> []"
    by (simp add: noAmountTable_def fieldsOf_def)
  have k: "clusterResultsOf exampleRuntime noAmountTable \<noteq> Some Raised"
    by (simp add: clusterResultsOf_nonempty [OF ne] exampleRuntime_def)
  obtain t where t: "insightsOf exampleRuntime (Some noAmountTable) = Inr (Some t)"
    using insightsOf_returns [OF ne f k] by blast
  then obtain e cr where s: "t = snapshotOf exampleRuntime noAmountTable e cr"
    using insightsOf_snapshot by blast
  have c: "\<lceil>(1::real) / 12\<rceil> = 1" by linarith
  have m: "map customers (monthlyData t) = [1, 0, -1, -2, -3, -4, -5, -6, -7, -8, -9, -10]"
    by (simp add: s monthlyData_no_date_field [OF d] customers_syntheticTrend len upt_12 c)
  have l: "length (monthlyData t) = 12"
    by (simp add: s monthlyData_no_date_field [OF d] length_syntheticTrend)
  show ?thesis using d t m l by simp
qed

lemma map_of_spread: "map_of (spread r) k = map_option VStr (map_of r k)"
  by (induction r) (auto simp: spread_def)

lemma customerSegment_derived:
  "map_of (customerSegment cr names af nfs i r) ''id'' = Some (VNum (Fin (real (i + 1))))"
  "map_of (customerSegment cr names af nfs i r) ''cluster'' = Some (clusterValue (clusterIdOf cr i))"
  "map_of (customerSegment cr names af nfs i r) ''segment'' =
     Some (VStr (segmentNameOf names (clusterIdOf cr i)))"
  "map_of (customerSegment cr names af nfs i r) ''monetary'' = Some (VNum (primaryAmount af r))"
  "map_of (customerSegment cr names af nfs i r) ''features'' = Some (VObj (featuresOf nfs r))"
  by (simp_all add: customerSegment_def Let_def map_of_setProps)

lemma customerSegment_passthrough:
  "k \<notin> derivedKeys \<Longrightarrow>
   map_of (customerSegment cr names af nfs i r) k = map_option VStr (map_of r k)"
  by (simp add: customerSegment_def Let_def map_of_setProps map_of_spread derivedKeys_def)

lemma customerSegment_segmentOf:
  "segmentOf (customerSegment cr names af nfs i r) = segmentNameOf names (clusterIdOf cr i)"
  by (simp add: segmentOf_def customerSegment_derived)

lemma map_segmentOf_enriched:
  "map segmentOf (enrichedOf data cr) =
     map (\<lambda>i. segmentNameOf (segmentNamesOf data cr) (clusterIdOf cr i)) [0..<length data]"
  by (rule nth_equalityI) (simp_all add: length_enrichedOf nth_enrichedOf customerSegment_segmentOf)

lemma segmentCountsOf_map:
  "segmentCountsOf cs = foldl (\<lambda>acc name. bump name acc) [] (map segmentOf cs)"
  by (simp add: segmentCountsOf_def foldl_map)

lemma insightsOf_snapshot_clusters:
  assumes "insightsOf rt (Some data) = Inr (Some t)"
  shows "data \<noteq> [] \<and> (\<exists>e. t = snapshotOf rt data e (clustersOf rt data))"
  using assms
  by (auto simp: insightsOf_def clustersOf_def split: if_splits option.splits kmeans_result.splits)

lemma sameExcept_fields:
  assumes "sameExceptColumn k d d'" and "d \<noteq> []"
  shows "fieldsOf d = fieldsOf d'"
proof -
  have "d' \<noteq> []" using assms by (auto simp: sameExceptColumn_def)
  moreover have "map fst (d ! 0) = map fst (d' ! 0)"
    using assms by (auto simp: sameExceptColumn_def)
  ultimately show ?thesis
    using assms(2) by (simp add: fieldsOf_def hd_conv_nth)
qed

lemma sameExcept_column_values:
  assumes "sameExceptColumn k d d'" and "f \<noteq> k"
  shows "map (\<lambda>r. map_of r f) d = map (\<lambda>r. map_of r f) d'"
  using assms by (intro nth_equalityI) (auto simp: sameExceptColumn_def)

lemma sameExcept_numericFields:
  assumes s: "sameExceptColumn k d d'" and ne: "d \<noteq> []"
    and n: "k \<notin> set (numericFieldsIn d)" and n': "k \<notin> set (numericFieldsIn d')"
  shows "numericFieldsIn d = numericFieldsIn d'"
proof -
  have fs: "fieldsOf d = fieldsOf d'" by (rule sameExcept_fields [OF s ne])
  have "list_ex isNumericValue (map (\<lambda>r. map_of r f) (take 100 d)) =
        list_ex isNumericValue (map (\<lambda>r. map_of r f) (take 100 d'))"
    if "f \<in> set (fieldsOf d)" for f
  proof (cases "f = k")
    case True
    then show ?thesis
      using n n' that fs by (simp add: numericFieldsIn_def numericFieldsOf_def)
  next
    case False
    have "map (\<lambda>r. map_of r f) (take 100 d) = take 100 (map (\<lambda>r. map_of r f) d)"
      by (simp add: take_map)
    also have "\<dots> = take 100 (map (\<lambda>r. map_of r f) d')"
      by (simp add: sameExcept_column_values [OF s False])
    also have "\<dots> = map (\<lambda>r. map_of r f) (take 100 d')"
      by (simp add: take_map)
    finally show ?thesis by simp
  qed
  then show ?thesis
    unfolding numericFieldsIn_def numericFieldsOf_def fs [symmetric]
    by (intro filter_cong) simp_all
qed

lemma sameExcept_clusteringData:
  assumes s: "sameExceptColumn k d d'" and n: "k \<notin> set nfs"
  shows "clusteringDataOf nfs d = clusteringDataOf nfs d'"
proof (rule nth_equalityI)
  show "length (clusteringDataOf nfs d) = length (clusteringDataOf nfs d')"
    using s by (simp add: clusteringDataOf_def sameExceptColumn_def)
next
  fix i assume "i < length (clusteringDataOf nfs d)"
  then have i: "i < length d" by (simp add: clusteringDataOf_def)
  then have i': "i < length d'" using s by (simp add: sameExceptColumn_def)
  have "map_of (d ! i) f = map_of (d' ! i) f" if "f \<in> set nfs" for f
    using s i n that by (auto simp: sameExceptColumn_def)
  then have "map (featureValue (d ! i)) nfs = map (featureValue (d' ! i)) nfs"
    by (intro map_cong) (simp_all add: featureValue_def)
  then show "clusteringDataOf nfs d ! i = clusteringDataOf nfs d' ! i"
    using i i' by (simp add: clusteringDataOf_def)
qed

lemma sameExcept_segmentData:
  assumes s: "sameExceptColumn k d d'" and ne: "d \<noteq> []"
    and n: "k \<notin> set (numericFieldsIn d)" and n': "k \<notin> set (numericFieldsIn d')"
  shows "clustersOf rt d = clustersOf rt d' \<and>
         segmentData (snapshotOf rt d e (clustersOf rt d)) =
           segmentData (snapshotOf rt d' e' (clustersOf rt d'))"
proof -
  have len: "length d = length d'" using s by (simp add: sameExceptColumn_def)
  then have ne': "d' \<noteq> []" using ne by auto
  have fs: "fieldsOf d = fieldsOf d'" by (rule sameExcept_fields [OF s ne])
  have nf: "numericFieldsIn d = numericFieldsIn d'" by (rule sameExcept_numericFields [OF s ne n n'])
  have cd: "clusteringDataOf (numericFieldsIn d') d = clusteringDataOf (numericFieldsIn d') d'"
    by (rule sameExcept_clusteringData [OF s n'])
  have cr: "clusterResultsOf rt d = clusterResultsOf rt d'"
    by (simp add: clusterResultsOf_nonempty [OF ne] clusterResultsOf_nonempty [OF ne'] nf cd len)
  then have cl: "clustersOf rt d = clustersOf rt d'" by (simp add: clustersOf_def)
  have names: "segmentNamesOf d cr' = segmentNamesOf d' cr'" for cr'
    by (simp add: segmentNamesOf_def nf cd len amountFieldsOf_def fs)
  have "map segmentOf (enrichedOf d (clustersOf rt d)) = map segmentOf (enrichedOf d' (clustersOf rt d'))"
    by (simp add: map_segmentOf_enriched names cl len)
  then have "segmentCountsOf (enrichedOf d (clustersOf rt d)) =
             segmentCountsOf (enrichedOf d' (clustersOf rt d'))"
    by (simp add: segmentCountsOf_map)
  then show ?thesis
    using cl by (simp add: segmentData_snapshot len)
qed

lemmas name_eval = segmentNamesOf_def generateSegmentNames_def clusterStatOf_def
  clusterPointsOf_def clusterAt_def nameOfStat_def valueName_def sizeName_def columnSum_def
  cell_def segmentNameOf_def clusterIdOf_def segmentLabel_def

lemma numericFields_sampleTable: "numericFieldsIn sampleTable = [''total_spent'']"
  by (simp add: numericFieldsIn_def numericFieldsOf_def sampleTable_def fieldsOf_def
      isNumericValue_def parse_eval)

lemma numericFields_sampleTable': "numericFieldsIn sampleTable' = [''total_spent'']"
  by (simp add: numericFieldsIn_def numericFieldsOf_def sampleTable'_def fieldsOf_def
      isNumericValue_def parse_eval)

lemma amountFields_sampleTable: "amountFieldsOf sampleTable = [''total_spent'']"
  by (simp add: sampleTable_def field_eval)

lemma clusteringData_sampleTable:
  "clusteringDataOf [''total_spent''] sampleTable = [[Fin 120], [Fin 80]]"
  by (simp add: clusteringDataOf_def featureValue_def sampleTable_def parse_eval)

lemma upt_0_2: "[0..<2] = [0, Suc 0]"
  by (simp add: numeral_2_eq_2)

lemma segmentNames_sampleTable:
  "segmentNamesOf sampleTable (Some [0, 1]) = [''Core Customers'', ''Potential Growth'']"
proof -
  have l: "length sampleTable = 2" by (simp add: sampleTable_def)
  show ?thesis
    by (simp add: name_eval numericFields_sampleTable amountFields_sampleTable
        clusteringData_sampleTable l upt_0_2)
qed

text \<open>
  C10. In the object built for record \<open>i\<close> the properties \<open>id\<close>, \<open>cluster\<close>, \<open>segment\<close>,
  \<open>monetary\<close> and \<open>features\<close> hold the derived values whatever the input record holds under
  those names, and every other property is the input's. The segment counts are the tally
  of the derived names; and two tables that differ only in the values of a column named
  \<open>segment\<close> that is not numeric get the same segment distribution.
\<close>

theorem C10_derived_fields_shadow_input:
  "(i < length data \<longrightarrow>
      map_of (enrichedOf data cr ! i) ''id'' = Some (VNum (Fin (real (i + 1)))) \<and>
      map_of (enrichedOf data cr ! i) ''cluster'' = Some (clusterValue (clusterIdOf cr i)) \<and>
      map_of (enrichedOf data cr ! i) ''segment'' =
        Some (VStr (segmentNameOf (segmentNamesOf data cr) (clusterIdOf cr i))) \<and>
      map_of (enrichedOf data cr ! i) ''monetary'' =
        Some (VNum (primaryAmount (amountFieldsOf data) (data ! i))) \<and>
      map_of (enrichedOf data cr ! i) ''features'' =
        Some (VObj (featuresOf (numericFieldsIn data) (data ! i))) \<and>
      (\<forall>k. k \<notin> derivedKeys \<longrightarrow>
           map_of (enrichedOf data cr ! i) k = map_option VStr (map_of (data ! i) k))) \<and>
   segmentCountsOf (enrichedOf data cr) =
     foldl (\<lambda>acc name. bump name acc) []
       (map (\<lambda>j. segmentNameOf (segmentNamesOf data cr) (clusterIdOf cr j)) [0..<length data]) \<and>
   (sameExceptColumn ''segment'' data data' \<and>
    ''segment'' \<notin> set (numericFieldsIn data) \<and> ''segment'' \<notin> set (numericFieldsIn data') \<and>
    insightsOf rt (Some data) = Inr (Some t) \<and> insightsOf rt (Some data') = Inr (Some t') \<longrightarrow>
    segmentData t = segmentData t')"
proof (intro conjI allI impI)
  assume a: "sameExceptColumn ''segment'' data data' \<and>
    ''segment'' \<notin> set (numericFieldsIn data) \<and> ''segment'' \<notin> set (numericFieldsIn data') \<and>
    insightsOf rt (Some data) = Inr (Some t) \<and> insightsOf rt (Some data') = Inr (Some t')"
  then obtain e e' where ne: "data \<noteq> []"
    and t: "t = snapshotOf rt data e (clustersOf rt data)"
    and t': "t' = snapshotOf rt data' e' (clustersOf rt data')"
    using insightsOf_snapshot_clusters by blast
  from a ne show "segmentData t = segmentData t'"
    unfolding t t' using sameExcept_segmentData by blast
qed (simp_all add: nth_enrichedOf customerSegment_derived customerSegment_passthrough
      segmentCountsOf_map map_segmentOf_enriched)

theorem C10_shadow_witness:
  "map_of (sampleTable ! 0) ''segment'' = Some ''Premium'' \<and>
   map_of (enrichedOf sampleTable (Some [0, 1]) ! 0) ''segment'' = Some (VStr ''Core Customers'') \<and>
   map_of (enrichedOf sampleTable (Some [0, 1]) ! 0) ''email'' = Some (VStr ''a@example.com'') \<and>
   sameExceptColumn ''segment'' sampleTable sampleTable' \<and>
   (\<exists>t t'. insightsOf exampleRuntime (Some sampleTable) = Inr (Some t) \<and>
           insightsOf exampleRuntime (Some sampleTable') = Inr (Some t') \<and>
           segmentData t = segmentData t')"
proof -
  have len: "length sampleTable = 2" "length sampleTable' = 2"
    by (simp_all add: sampleTable_def sampleTable'_def)
  have ne: "sampleTable \<noteq> []" "sampleTable' \<noteq> []"
    by (simp_all add: sampleTable_def sampleTable'_def)
  have same: "sameExceptColumn ''segment'' sampleTable sampleTable'"
    by (simp add: sameExceptColumn_def sampleTable_def sampleTable'_def numeral_2_eq_2 less_Suc_eq)
  have f: "fieldsOf sampleTable \<noteq> []" "fieldsOf sampleTable' \<noteq> []"
    by (simp_all add: fieldsOf_def sampleTable_def sampleTable'_def)
  have k: "clusterResultsOf exampleRuntime sampleTable \<noteq> Some Raised"
    "clusterResultsOf exampleRuntime sampleTable' \<noteq> Some Raised"
    by (simp_all add: clusterResultsOf_nonempty ne exampleRuntime_def)
  obtain t t' where t: "insightsOf exampleRuntime (Some sampleTable) = Inr (Some t)"
    and t': "insightsOf exampleRuntime (Some sampleTable') = Inr (Some t')"
    using insightsOf_returns [OF ne(1) f(1) k(1)] insightsOf_returns [OF ne(2) f(2) k(2)] by blast
  note inst = C10_derived_fields_shadow_input
    [of 0 sampleTable "Some [0, 1]" sampleTable' exampleRuntime t t']
  have i0: "0 < length sampleTable" by (simp add: len)
  have nk: "''email'' \<notin> derivedKeys" by (simp add: derivedKeys_def)
  have nn: "''segment'' \<notin> set (numericFieldsIn sampleTable)"
    "''segment'' \<notin> set (numericFieldsIn sampleTable')"
    by (simp_all add: numericFields_sampleTable numericFields_sampleTable')
  have "segmentData t = segmentData t'"
    using inst same nn t t' by blast
  moreover have "map_of (enrichedOf sampleTable (Some [0, 1]) ! 0) ''segment'' =
      Some (VStr (segmentNameOf (segmentNamesOf sampleTable (Some [0, 1])) (clusterIdOf (Some [0, 1]) 0)))"
    using inst i0 by blast
  then have "map_of (enrichedOf sampleTable (Some [0, 1]) ! 0) ''segment'' = Some (VStr ''Core Customers'')"
    unfolding segmentNames_sampleTable by (simp add: segmentNameOf_def clusterIdOf_def clusterAt_def)
  moreover have "map_of (enrichedOf sampleTable (Some [0, 1]) ! 0) ''email'' =
      map_option VStr (map_of (sampleTable ! 0) ''email'')"
    using inst i0 nk by blast
  then have "map_of (enrichedOf sampleTable (Some [0, 1]) ! 0) ''email'' = Some (VStr ''a@example.com'')"
    by (simp add: sampleTable_def)
  moreover have "map_of (sampleTable ! 0) ''segment'' = Some ''Premium''"
    by (simp add: sampleTable_def)
  ultimately show ?thesis using same t t' by blast
qed

section \<open>Names of the clusters\<close>










lemma segmentLabel_nonempty: "segmentLabel c \<noteq> []"
  by (simp add: segmentLabel_def)
















text \<open>
  When a cluster with points comes after an empty one, its name is not made from its own
  statistics: the names are indexed by position among the clusters that have points.
\<close>


lemma names_shift_after_empty_cluster:
  "displayName sampleTable [1, 1] 1 = ''Segment 2'' \<and>
   claimedName sampleTable [1, 1] 1 = ''Core Customers'' \<and>
   segmentNamesOf sampleTable (Some [1, 1]) = [''Core Customers'']"
proof -
  have l: "length sampleTable = 2" by (simp add: sampleTable_def)
  have n: "segmentNamesOf sampleTable (Some [1, 1]) = [''Core Customers'']"
    by (simp add: name_eval numericFields_sampleTable amountFields_sampleTable
        clusteringData_sampleTable l upt_0_2)
  have c: "claimedName sampleTable [1, 1] 1 = ''Core Customers''"
    by (simp add: claimedName_def primaryValueIdx_def numericFields_sampleTable
        amountFields_sampleTable clusteringData_sampleTable clusterMean_def globalMean_def
        sizeRatio_def clusterPointsOf_def clusterAt_def columnSum_def cell_def valueName_def)
  have d: "displayName sampleTable [1, 1] 1 = ''Segment 2''"
    unfolding displayName_def n by (simp add: segmentNameOf_def label_eval)
  show ?thesis using n c d by simp
qed

section \<open>Numeric fields\<close>



lemma isNumericValue_undefined: "\<not> isNumericValue None"
  by (simp add: isNumericValue_def parseFloat_def)





section \<open>The normaliser in double arithmetic\<close>

lemma ulpExponent_eq:
  assumes "2 powr of_int k \<le> \<bar>x\<bar>" and "\<bar>x\<bar> < 2 powr of_int (k + 1)" and "- 1022 \<le> k"
  shows "ulpExponent x = k - 52"
proof -
  have pos: "0 < \<bar>x\<bar>" using assms(1) by (smt (verit) powr_gt_zero)
  have "of_int k \<le> log 2 \<bar>x\<bar>"
    using assms(1) pos by (simp add: le_log_iff)
  moreover have "log 2 \<bar>x\<bar> < of_int (k + 1)"
    using assms(2) pos by (simp add: log_less_iff)
  ultimately have "\<lfloor>log 2 \<bar>x\<bar>\<rfloor> = k"
    by (simp add: floor_eq_iff)
  then show ?thesis using assms(3) by (simp add: ulpExponent_def)
qed

lemma round53_I:
  assumes "2 powr of_int k \<le> \<bar>x\<bar>" and "\<bar>x\<bar> < 2 powr of_int (k + 1)" and "- 1022 \<le> k"
    and "roundHalfEven (x / 2 powr of_int (k - 52)) = n"
  shows "round53 x = of_int n * 2 powr of_int (k - 52)"
proof -
  have "x \<noteq> 0" using assms(1) by (smt (verit) powr_gt_zero)
  then show ?thesis
    using assms(4) by (simp add: round53_def ulpExponent_eq [OF assms(1,2,3)])
qed

lemma rnd_small: "\<bar>a\<bar> \<le> 2 \<Longrightarrow> rnd (Fin a) = Fin (round53 a)"
proof -
  assume "\<bar>a\<bar> \<le> 2"
  moreover have "(2::real) < overflowBound" by (simp add: overflowBound_def)
  ultimately show ?thesis by (simp add: rnd_def toDouble_def)
qed

lemma round53_tenth: "round53 (3602879701896397 / 36028797018963968) = 3602879701896397 / 36028797018963968"
  by (rule round53_I [where k = "-4" and n = 7205759403792794, THEN trans])
     (simp_all add: powr_minus_divide roundHalfEven_def)

lemma round53_two_tenths:
  "round53 (3602879701896397 / 18014398509481984) = 3602879701896397 / 18014398509481984"
  by (rule round53_I [where k = "-3" and n = 7205759403792794, THEN trans])
     (simp_all add: powr_minus_divide roundHalfEven_def)

lemma round53_three_tenths:
  "round53 (10808639105689191 / 36028797018963968) = 1351079888211149 / 4503599627370496"
  by (rule round53_I [where k = "-2" and n = 5404319552844596, THEN trans])
     (simp_all add: powr_minus_divide roundHalfEven_def)

lemma round53_mean:
  "round53 (1351079888211149 / 13510798882111488) = 7205759403792795 / 72057594037927936"
  by (rule round53_I [where k = "-4" and n = 7205759403792795, THEN trans])
     (simp_all add: powr_minus_divide roundHalfEven_def)

lemma mean_tenths:
  "columnMean tenths 0 = Fin (7205759403792795 / 72057594037927936)"
  by (simp add: columnMean_def tenths_def tenth_def cell_def rnd_small
      round53_tenth round53_two_tenths round53_three_tenths round53_mean)

lemma round53_deviation: "round53 (- (1 / 72057594037927936)) = - (1 / 72057594037927936)"
  by (rule round53_I [where k = "-56" and n = "- 4503599627370496", THEN trans])
     (simp_all add: powr_minus_divide roundHalfEven_def)

lemma round53_square: "round53 (1 / 5192296858534827628530496329220096) = 1 / 5192296858534827628530496329220096"
  by (rule round53_I [where k = "-112" and n = "4503599627370496", THEN trans])
     (simp_all add: powr_minus_divide roundHalfEven_def)

lemma round53_two_squares: "round53 (1 / 2596148429267413814265248164610048) = 1 / 2596148429267413814265248164610048"
  by (rule round53_I [where k = "-111" and n = "4503599627370496", THEN trans])
     (simp_all add: powr_minus_divide roundHalfEven_def)

lemma round53_three_squares: "round53 (3 / 5192296858534827628530496329220096) = 3 / 5192296858534827628530496329220096"
  by (rule round53_I [where k = "-111" and n = "6755399441055744", THEN trans])
     (simp_all add: powr_minus_divide roundHalfEven_def)

lemma round53_std: "round53 (1 / 72057594037927936) = 1 / 72057594037927936"
  by (rule round53_I [where k = "-56" and n = "4503599627370496", THEN trans])
     (simp_all add: powr_minus_divide roundHalfEven_def)

lemma round53_minus_one: "round53 (- 1) = - 1"
  by (rule round53_I [where k = "0" and n = "- 4503599627370496", THEN trans])
     (simp_all add: powr_minus_divide roundHalfEven_def)

lemma sqrt_variance: "sqrt (1 / 5192296858534827628530496329220096) = 1 / 72057594037927936"
proof -
  have "(5192296858534827628530496329220096::real) = 72057594037927936 ^ 2" by simp
  then show ?thesis
    by (simp only: real_sqrt_divide real_sqrt_one real_sqrt_abs)
qed

lemma std_tenths:
  "columnStd tenths [Fin (7205759403792795 / 72057594037927936)] 0 =
     Fin (1 / 72057594037927936)"
  by (simp add: columnStd_def squaredDeviation_def jsub_def tenths_def tenth_def cell_def rnd_small
      round53_deviation round53_square round53_two_squares round53_three_squares round53_std
      sqrt_variance)

lemma tenth_is_nearest_double: "round53 (1 / 10) = tenth"
  unfolding tenth_def
  by (rule round53_I [where k = "-4" and n = 7205759403792794, THEN trans])
     (simp_all add: powr_minus_divide roundHalfEven_def)

lemma normalize_tenths: "normalizeData tenths = [[Fin (- 1)], [Fin (- 1)], [Fin (- 1)]]"
proof -
  have m: "map (columnMean tenths) [0..<length (hd tenths)] =
             [Fin (7205759403792795 / 72057594037927936)]"
    using mean_tenths by (simp add: tenths_def)
  show ?thesis
    unfolding normalizeData_def Let_def m
    using std_tenths
    by (simp add: tenths_def tenth_def cell_def rnd_small jsub_def round53_deviation round53_minus_one)
qed

lemma round53_half: "round53 halfMax = halfMax"
  unfolding halfMax_def
  by (rule round53_I [where k = 1023 and n = "2 ^ 52", THEN trans])
     (simp_all add: powr_realpow roundHalfEven_def)

lemma rnd_half: "rnd (Fin halfMax) = Fin halfMax"
proof -
  have "\<not> overflowBound \<le> \<bar>halfMax\<bar>"
    by (simp add: overflowBound_def halfMax_def)
  then show ?thesis by (simp add: rnd_def toDouble_def round53_half)
qed

lemma rnd_two_halves: "rnd (Fin (2 * halfMax)) = PInf"
proof -
  have "overflowBound \<le> \<bar>2 * halfMax\<bar>" "0 < 2 * halfMax"
    by (simp_all add: overflowBound_def halfMax_def)
  then show ?thesis by (simp add: rnd_def toDouble_def signed_inf_def)
qed

lemma mean_halves: "columnMean halves 0 = PInf"
  by (simp add: columnMean_def halves_def cell_def rnd_half rnd_two_halves signed_inf_def)
     (simp add: rnd_def)

lemma std_halves: "columnStd halves [PInf] 0 = PInf"
  by (simp add: columnStd_def squaredDeviation_def jsub_def halves_def cell_def)
     (simp add: rnd_def signed_inf_def)

lemma normalize_halves: "normalizeData halves = [[NaN], [NaN]]"
proof -
  have m: "map (columnMean halves) [0..<length (hd halves)] = [PInf]"
    using mean_halves by (simp add: halves_def)
  show ?thesis
    unfolding normalizeData_def Let_def m
    using std_halves
    by (simp add: halves_def cell_def jsub_def) (simp add: rnd_def)
qed

text \<open>
  C8 (the code departs from the claim). A constant column is not always mapped to zeros.
  The double that \<open>0.1\<close> denotes is \<open>tenth\<close>. In the column of three of them the sum rounds
  up, so that the computed mean is 0.10000000000000002 and not the constant; the computed
  deviation is \<open>2^-56\<close> and not 0, the test \<open>stds[j] === 0\<close> does not hold, and every cell
  is normalised to -1. In the column of two \<open>2^1023\<close> (\<open>halfMax\<close>) the sum is \<open>Infinity\<close>, and every
  cell is normalised to \<open>NaN\<close>.
\<close>

theorem C8_constant_column_not_zero:
  "round53 (1 / 10) = tenth \<and>
   columnMean tenths 0 = Fin (7205759403792795 / 2 ^ 56) \<and>
   columnStd tenths [columnMean tenths 0] 0 = Fin (1 / 2 ^ 56) \<and>
   normalizeData tenths = [[Fin (- 1)], [Fin (- 1)], [Fin (- 1)]] \<and>
   normalizeData halves = [[NaN], [NaN]]"
  using tenth_is_nearest_double mean_tenths std_tenths normalize_tenths normalize_halves
  by simp

end
